theory Spec2Isabelle
  imports Main "HOL-Library.Sublist" "HOL-Library.Word"
begin

text \<open>
  The generator of gopy, \<open>bind/gen.go\<close>: \<open>GenPyBind\<close> walks the symbol table of the
  target packages and writes a glue file, a build script, a build recipe, one wrapper file
  for each package and an empty \<open>__init__.py\<close>. The theory translates \<open>gen.go\<close> function
  by function, states what the spec says the run emits, and proves how the two agree.
\<close>

section \<open>Strings and the library functions gen.go calls\<close>

text \<open>
  A Go string is a byte sequence, here a \<open>string\<close> (a list of characters). The four
  characters below cannot be written inside a literal and are named.
\<close>

definition nl :: string where
  "nl = [CHR 0x0A]"

definition tab :: string where
  "tab = [CHR 0x09]"

definition sq :: string where
  "sq = [CHR 0x27]"

definition dq :: string where
  "dq = [CHR 0x22]"

text \<open>
  \<open>strings.Index(s, sub)\<close>: the index of the first occurrence of \<open>sub\<close> in \<open>s\<close>,
  or \<open>-1\<close> when there is none.
\<close>

fun strings_Index :: "string \<Rightarrow> string \<Rightarrow> int" where
  "strings_Index [] sub = (if sub = [] then 0 else - 1)"
| "strings_Index (c # cs) sub =
     (if prefix sub (c # cs) then 0
      else (let r = strings_Index cs sub in if r < 0 then - 1 else r + 1))"

text \<open>\<open>strings.Contains(s, sub)\<close>, used to state what a text mentions.\<close>

definition strings_Contains :: "string \<Rightarrow> string \<Rightarrow> bool" where
  "strings_Contains s sub = (0 \<le> strings_Index s sub)"

text \<open>
  \<open>strings.Replace(s, old, new, 1)\<close>: the first occurrence of \<open>old\<close> is replaced, the
  rest of \<open>s\<close> is kept. gen.go calls it with the count 1 only.
\<close>

fun strings_Replace1 :: "string \<Rightarrow> string \<Rightarrow> string \<Rightarrow> string" where
  "strings_Replace1 [] old new = (if old = [] then new else [])"
| "strings_Replace1 (c # cs) old new =
     (if prefix old (c # cs) then new @ drop (length old) (c # cs)
      else c # strings_Replace1 cs old new)"

section \<open>The boolean codec of the glue preamble\<close>

text \<open>
  The two Go functions that the constant \<open>goPreamble\<close> writes into every glue file.
  \<open>C.char\<close> is one byte.
  \<^verbatim>\<open>
  func boolGoToPy(b bool) C.char { if b { return 1 }; return 0 }
  func boolPyToGo(b C.char) bool { if b != 0 { return true }; return false }
  \<close>
\<close>

definition boolGoToPy :: "bool \<Rightarrow> 8 word" where
  "boolGoToPy b = (if b then 1 else 0)"

definition boolPyToGo :: "8 word \<Rightarrow> bool" where
  "boolPyToGo b = (if b \<noteq> 0 then True else False)"

section \<open>The four templates\<close>

text \<open>
  Each template is the function that \<open>Printf\<close> computes from it: the verb \<open>%[n]s\<close>
  stands for the n-th argument, every other character is copied.
\<close>

definition goPreamble :: "string \<Rightarrow> string \<Rightarrow> string \<Rightarrow> string \<Rightarrow> string \<Rightarrow> string \<Rightarrow> string" where
  "goPreamble a1 a2 a3 a4 a5 a6 = concat
    [''/*'', nl,
     ''cgo stubs for package '', a1, ''.'', nl,
     ''File is generated by gopy. Do not edit.'', nl,
     a2, nl,
     ''*/'', nl,
     nl,
     ''package main'', nl,
     nl,
     ''/*'', nl,
     ''#cgo pkg-config: '', a3, nl,
     ''#define Py_LIMITED_API'', nl,
     ''#include <Python.h>'', nl,
     ''*/'', nl,
     ''import '', dq, ''C'', dq, nl,
     ''import ('', nl,
     tab, dq, ''github.com/goki/gopy/gopyh'', dq, '' // handler'', nl,
     tab, a6, nl,
     '')'', nl,
     nl,
     ''func main() {}'', nl,
     nl,
     ''// type for the handle -- int64 for speed (can switch to string)'', nl,
     ''type GoHandle '', a4, nl,
     ''type CGoHandle '', a5, nl,
     nl,
     ''// boolGoToPy converts a Go bool to python-compatible C.char'', nl,
     ''func boolGoToPy(b bool) C.char {'', nl,
     tab, ''if b {'', nl,
     tab, tab, ''return 1'', nl,
     tab, ''}'', nl,
     tab, ''return 0'', nl,
     ''}'', nl,
     nl,
     ''// boolPyToGo converts a python-compatible C.Char to Go bool'', nl,
     ''func boolPyToGo(b C.char) bool {'', nl,
     tab, ''if b != 0 {'', nl,
     tab, tab, ''return true'', nl,
     tab, ''}'', nl,
     tab, ''return false'', nl,
     ''}'', nl,
     nl]"

definition PyBuildPreamble :: "string \<Rightarrow> string \<Rightarrow> string" where
  "PyBuildPreamble a1 a2 = concat
    [''# python build stubs for package '', a1, nl,
     ''# File is generated by gopy. Do not edit.'', nl,
     ''# '', a2, nl,
     nl,
     ''from pybindgen import retval, param, Module'', nl,
     ''import sys'', nl,
     nl,
     ''mod = Module('', sq, ''_'', a1, sq, '')'', nl,
     ''mod.add_include('', sq, dq, a1, ''_go.h'', dq, sq, '')'', nl]"

definition PyWrapPreamble :: "string \<Rightarrow> string \<Rightarrow> string \<Rightarrow> string \<Rightarrow> string \<Rightarrow> string \<Rightarrow> string" where
  "PyWrapPreamble a1 a2 a3 a4 a5 a6 = concat
    [a5, nl,
     ''# python wrapper for package '', a4, '' within overall package '', a1, nl,
     ''# This is what you import to use the package.'', nl,
     ''# File is generated by gopy. Do not edit.'', nl,
     ''# '', a2, nl,
     nl,
     ''# the following is required to enable dlopen to open the _go.so file'', nl,
     ''import os,sys,inspect,collections'', nl,
     ''cwd = os.getcwd()'', nl,
     
     ''currentdir = os.path.dirname(os.path.abspath(inspect.getfile(inspect.currentframe())))'',
     nl,
     ''os.chdir(currentdir)'', nl,
     ''import _'', a1, nl,
     ''os.chdir(cwd)'', nl,
     nl,
     ''# to use this code in your end-user python file, import it as follows:'', nl,
     ''# from '', a1, '' import '', a3, nl,
     ''# and then refer to everything using '', a3, ''. prefix'', nl,
     ''# packages imported by this package listed below:'', nl,
     nl,
     a6, nl,
     nl,
     ''class GoClass(object):'', nl,
     tab, dq, dq, dq, ''GoClass is the base class for all GoPy wrapper classes'', dq,
     dq, dq, nl,
     tab, ''pass'', nl,
     tab, nl]"

definition MakefileTemplate :: "string \<Rightarrow> string \<Rightarrow> string \<Rightarrow> string \<Rightarrow> string \<Rightarrow> string" where
  "MakefileTemplate a1 a2 a3 a4 a5 = concat
    [''# Makefile for python interface for package '', a1, ''.'', nl,
     ''# File is generated by gopy. Do not edit.'', nl,
     ''# '', a2, nl,
     nl,
     ''GOCMD=go'', nl,
     ''GOBUILD=$(GOCMD) build'', nl,
     ''PYTHON='', a4, nl,
     ''PYTHON_CFG=$(PYTHON)-config'', nl,
     ''GCC=gcc'', nl,
     ''LIBEXT='', a5, nl,
     nl,
     ''# get the flags used to build python:'', nl,
     ''CFLAGS = $(shell $(PYTHON_CFG) --cflags)'', nl,
     ''LDFLAGS = $(shell $(PYTHON_CFG) --ldflags)'', nl,
     nl,
     ''all: gen build'', nl,
     nl,
     ''gen:'', nl,
     tab, a3, nl,
     nl,
     ''build:'', nl,
     tab,
     ''# build target builds the generated files -- this is what gopy build does..'',
     nl,
     tab, ''# this will otherwise be built during go build and may be out of date'', nl,
     tab, ''- rm '', a1, ''.c'', nl,
     tab, ''# generate '', a1, ''_go$(LIBEXT) from '', a1,
     ''.go -- the cgo wrappers to go functions'', nl,
     tab, ''$(GOBUILD) -buildmode=c-shared -ldflags='', dq, ''-s -w'', dq, '' -o '', a1,
     ''_go$(LIBEXT) '', a1, ''.go'', nl,
     tab, ''# use pybindgen to build the '', a1,
     ''.c file which are the CPython wrappers to cgo wrappers..'', nl,
     tab, ''# note: pip install pybindgen to get pybindgen if this fails'', nl,
     tab, ''$(PYTHON) build.py'', nl,
     tab, ''# build the _'', a1,
     ''$(LIBEXT) library that contains the cgo and CPython wrappers'', nl,
     tab, ''# generated '', a1, ''.py python wrapper imports this c-code package'', nl,
     tab, ''$(GCC) '', a1, ''.c -dynamiclib '', a1, ''_go$(LIBEXT) -o _'', a1,
     ''$(LIBEXT) $(CFLAGS) $(LDFLAGS)'', nl,
     tab, nl]"

section \<open>StripOutputFromCmd\<close>

text \<open>
  \<^verbatim>\<open>
  if oidx := strings.Index(cmdstr, "-output="); oidx > 0 {
      spidx := strings.Index(cmdstr[oidx:], " ")
      cmdstr = cmdstr[:oidx] + cmdstr[oidx+spidx+1:]
  }
  return cmdstr
  \<close>
  With \<open>0 < oidx\<close> and \<open>-1 \<le> spidx < len - oidx\<close> all three slices are in range.
\<close>

definition StripOutputFromCmd :: "string \<Rightarrow> string" where
  "StripOutputFromCmd cmdstr =
     (let oidx = strings_Index cmdstr ''-output='' in
      if 0 < oidx then
        (let spidx = strings_Index (drop (nat oidx) cmdstr) '' '' in
         take (nat oidx) cmdstr @ drop (nat (oidx + spidx + 1)) cmdstr)
      else cmdstr)"

text \<open>The generate-only command that \<open>genMakefile\<close> puts into the build recipe.\<close>

definition gencmd_of :: "string \<Rightarrow> string" where
  "gencmd_of cmdstr = StripOutputFromCmd (strings_Replace1 cmdstr ''gopy build'' ''gopy gen'')"

section \<open>The symbol table as gen.go reads it\<close>

text \<open>
  gen.go reads the table through a few accessors only; their declarations are in other
  files of the package. Each record below has one field for each accessor that gen.go
  calls.

  A \<open>*types.Package\<close>: \<open>tp_addr\<close> is the pointer itself (gen.go compares two such
  pointers with \<open>!=\<close>), \<open>tp_Path\<close> and \<open>tp_Name\<close> are \<open>Path()\<close> and \<open>Name()\<close>, and
  \<open>tp_Imports\<close> lists \<open>(im.Path(), im.Name())\<close> for every \<open>im\<close> of \<open>Imports()\<close>.
\<close>

record types_Package =
  tp_addr :: nat
  tp_Path :: string
  tp_Name :: string
  tp_Imports :: "(string \<times> string) list"

text \<open>A \<open>*symbol\<close>: \<open>isType\<close> is \<open>sym.isType()\<close>, \<open>gopkg\<close> the field \<open>sym.gopkg\<close>.\<close>

record symbol =
  goname :: string
  isType :: bool
  gopkg :: types_Package

datatype Const = Const string

datatype Var = Var string

datatype Interface = Interface string

datatype Func = Func string

text \<open>A \<open>Struct\<close> with its constructors \<open>s.ctors\<close>.\<close>

record Struct =
  s_name :: string
  ctors :: "Func list"

text \<open>
  A \<open>*Package\<close>: the fields \<open>pkg\<close>, \<open>doc.Doc\<close>, \<open>consts\<close>, \<open>vars\<close>, \<open>ifaces\<close>,
  \<open>structs\<close>, \<open>funcs\<close> and the result of the method \<open>Name()\<close>.
\<close>

record Package =
  p_pkg :: types_Package
  p_doc :: string
  p_consts :: "Const list"
  p_vars :: "Var list"
  p_ifaces :: "Interface list"
  p_structs :: "Struct list"
  p_funcs :: "Func list"
  p_Name :: string

text \<open>
  The table \<open>current\<close>: \<open>st_names\<close> is the result of \<open>current.names()\<close>, \<open>st_sym\<close> is
  \<open>current.sym(n)\<close>, and \<open>st_imports\<close> is the Go map \<open>current.imports\<close>, whose keys are
  import paths.
\<close>

record symtab =
  st_names :: "string list"
  st_sym :: "string \<Rightarrow> symbol"
  st_imports :: "string \<rightharpoonup> string"

text \<open>The package-level variables that gen.go reads.\<close>

record globals =
  Packages :: "Package list"
  current :: symtab
  GoHandle :: string
  CGoHandle :: string
  PyHandle :: string

section \<open>Buffers, emitters and the world outside\<close>

text \<open>
  The per-declaration emitters \<open>genType\<close>, \<open>genConstValue\<close>, \<open>genVarGetter\<close>,
  \<open>genVarSetter\<close>, \<open>genInterface\<close>, \<open>genStruct\<close> and \<open>genFunc\<close> are called by gen.go
  and defined elsewhere. A call of one of them is an \<open>emission\<close>.
\<close>

datatype emission =
    GenType symbol bool bool
  | GenConstValue Const
  | GenVarGetter Var
  | GenVarSetter Var
  | GenInterface Interface
  | GenStruct Struct
  | GenFunc Func

text \<open>
  The content of a \<open>printer\<close>: the texts that gen.go itself prints, and, in between,
  the places where an emitter was called to write its declaration.
\<close>

datatype piece = Txt string | Emit emission

type_synonym buffer = "piece list"

fun emits :: "buffer \<Rightarrow> emission list" where
  "emits [] = []"
| "emits (Txt t # b) = emits b"
| "emits (Emit e # b) = e # emits b"

text \<open>
  What a run meets outside gen.go. An error is its message; \<open>None\<close> is \<open>nil\<close>.
  \<^item> \<open>os_MkdirAll\<close>, \<open>os_Create\<close>, \<open>io_Copy\<close>: the result of the call for a path
    (\<open>os.MkdirAll\<close> returns \<open>nil\<close> for a directory that exists already);
  \<^item> \<open>range_imports\<close>: the order in which \<open>range current.imports\<close> visits the keys of
    the map, which Go leaves open (see \<open>map_range\<close>);
  \<^item> \<open>fmt_q\<close>: the verb \<open>%q\<close> on a string;
  \<^item> \<open>filepath_Split\<close>, \<open>filepath_Clean\<close>, \<open>filepath_Join\<close>: the functions of
    \<open>path/filepath\<close>;
  \<^item> \<open>emitter_errs\<close>: the errors that an emitter adds to \<open>g.err\<close> during a call.
\<close>

record env =
  os_MkdirAll :: "string \<Rightarrow> string option"
  os_Create :: "string \<Rightarrow> string option"
  io_Copy :: "string \<Rightarrow> string option"
  range_imports :: "string list"
  fmt_q :: "string \<Rightarrow> string"
  filepath_Split :: "string \<Rightarrow> string \<times> string"
  filepath_Clean :: "string \<Rightarrow> string"
  filepath_Join :: "string \<Rightarrow> string \<Rightarrow> string"
  emitter_errs :: "emission \<Rightarrow> string list"

text \<open>
  A \<open>range\<close> over a Go map visits every key once, in an order that is not specified and
  may differ from one run to the next.
\<close>

definition map_range :: "('k \<rightharpoonup> 'v) \<Rightarrow> 'k list \<Rightarrow> bool" where
  "map_range m ks = (distinct ks \<and> set ks = dom m)"

text \<open>
  The struct \<open>pyGen\<close>. The last field is not in the struct: \<open>out\<close> lists the files that
  the run has opened with \<open>os.Create\<close>, each with the buffer content handed to \<open>io.Copy\<close>
  for it (nothing for \<open>__init__.py\<close>); whether a call failed is in \<open>err\<close>.
\<close>

record pyGen =
  gofile :: buffer
  pybuild :: buffer
  pywrap :: buffer
  makefile :: buffer
  pkg :: "Package option"
  err :: "string list"
  pkgmap :: "string set"
  odir :: string
  outname :: string
  cmdstr :: string
  vm :: string
  libext :: string
  lang :: int
  out :: "(string \<times> buffer) list"

text \<open>
  Modelled from the spec: the type \<open>ErrorList\<close> is not in gen.go, which calls
  \<open>g.err.Add(err)\<close> after every file operation, tests \<open>len(g.err) == 0\<close> and returns
  \<open>g.err.Error()\<close>. \<open>Add\<close> appends an error that is not \<open>nil\<close>; the text of \<open>Error()\<close>
  is "the concatenation of every recorded error message, in the order encountered".
\<close>

definition ErrorList_Add :: "string option \<Rightarrow> string list \<Rightarrow> string list" where
  "ErrorList_Add e l = (case e of None \<Rightarrow> l | Some m \<Rightarrow> l @ [m])"

definition ErrorList_Error :: "string list \<Rightarrow> string" where
  "ErrorList_Error l = concat l"

text \<open>
  Modelled from the spec: \<open>printer.Printf\<close> is not in gen.go; it appends the formatted
  text to the buffer ("buffers text per artifact").
\<close>

definition Printf :: "string \<Rightarrow> buffer \<Rightarrow> buffer" where
  "Printf t b = b @ [Txt t]"

text \<open>
  Modelled from the spec: the emitters are not in gen.go. "Each emission writes
  simultaneously into the single shared glue buffer and into that package's dedicated
  wrapper buffer"; \<open>to_go\<close> and \<open>to_wrap\<close> say which of the two a call writes into. The
  errors of the call go to \<open>g.err\<close>.
\<close>

definition emitter :: "env \<Rightarrow> emission \<Rightarrow> bool \<Rightarrow> bool \<Rightarrow> pyGen \<Rightarrow> pyGen" where
  "emitter E e to_go to_wrap g =
     g\<lparr>gofile := (if to_go then gofile g @ [Emit e] else gofile g),
       pywrap := (if to_wrap then pywrap g @ [Emit e] else pywrap g),
       err := err g @ emitter_errs E e\<rparr>"

text \<open>
  \<open>genType(sym, extTypes, pyWrapOnly)\<close>, as gen.go comments its three calls:
  \<open>(sym, true, false)\<close> "ext types, no python wrapping", \<open>(sym, true, true)\<close>
  "ext types, only python wrapping", \<open>(sym, false, false)\<close> "not exttypes".
\<close>

definition genType :: "env \<Rightarrow> symbol \<Rightarrow> bool \<Rightarrow> bool \<Rightarrow> pyGen \<Rightarrow> pyGen" where
  "genType E s extTypes pyWrapOnly =
     emitter E (GenType s extTypes pyWrapOnly) (\<not> pyWrapOnly) (pyWrapOnly \<or> \<not> extTypes)"

definition genConstValue :: "env \<Rightarrow> Const \<Rightarrow> pyGen \<Rightarrow> pyGen" where
  "genConstValue E c = emitter E (GenConstValue c) True True"

definition genVarGetter :: "env \<Rightarrow> Var \<Rightarrow> pyGen \<Rightarrow> pyGen" where
  "genVarGetter E v = emitter E (GenVarGetter v) True True"

definition genVarSetter :: "env \<Rightarrow> Var \<Rightarrow> pyGen \<Rightarrow> pyGen" where
  "genVarSetter E v = emitter E (GenVarSetter v) True True"

definition genInterface :: "env \<Rightarrow> Interface \<Rightarrow> pyGen \<Rightarrow> pyGen" where
  "genInterface E i = emitter E (GenInterface i) True True"

definition genStruct :: "env \<Rightarrow> Struct \<Rightarrow> pyGen \<Rightarrow> pyGen" where
  "genStruct E s = emitter E (GenStruct s) True True"

definition genFunc :: "env \<Rightarrow> Func \<Rightarrow> pyGen \<Rightarrow> pyGen" where
  "genFunc E f = emitter E (GenFunc f) True True"

section \<open>The generator\<close>

text \<open>
  Every method of \<open>pyGen\<close> takes the struct and returns it updated. A method that reads
  through the pointer \<open>g.pkg\<close> returns \<open>None\<close> when the pointer is \<open>nil\<close>: the Go code
  panics there.
\<close>

definition genPackageMap :: "globals \<Rightarrow> pyGen \<Rightarrow> pyGen" where
  "genPackageMap G g =
     g\<lparr>pkgmap := fold (\<lambda>p m. insert (tp_Path (p_pkg p)) m) (Packages G) {}\<rparr>"

text \<open>
  \<^verbatim>\<open>
  pkgimport := ""
  for pi, _ := range current.imports { pkgimport += fmt.Sprintf("\n\t%q", pi) }
  \<close>
\<close>

definition pkgimport_of :: "env \<Rightarrow> string" where
  "pkgimport_of E = fold (\<lambda>pi acc. acc @ nl @ tab @ fmt_q E pi) (range_imports E) []"

definition libcfg_of :: "env \<Rightarrow> string \<Rightarrow> string" where
  "libcfg_of E v =
     (let (pypath, pyonly) = filepath_Split E v;
          (pyroot, _) = filepath_Split E (filepath_Clean E pypath)
      in filepath_Join E (filepath_Join E (filepath_Join E pyroot ''lib'') ''pkgconfig'')
           (pyonly @ ''.pc''))"

definition genGoPreamble :: "env \<Rightarrow> globals \<Rightarrow> pyGen \<Rightarrow> pyGen" where
  "genGoPreamble E G g =
     (let pkgimport = pkgimport_of E;
          libcfg = libcfg_of E (vm g);
          g = g\<lparr>gofile := Printf (goPreamble (outname g) (cmdstr g) libcfg (GoHandle G)
                                  (CGoHandle G) pkgimport) (gofile g)\<rparr>
      in g\<lparr>gofile := Printf (nl @ ''// --- generated code for package: '' @ outname g
                            @ '' below: ---'' @ nl @ nl) (gofile g)\<rparr>)"

definition genPyBuildPreamble :: "pyGen \<Rightarrow> pyGen" where
  "genPyBuildPreamble g =
     g\<lparr>pybuild := Printf (PyBuildPreamble (outname g) (cmdstr g)) (pybuild g)\<rparr>"

definition genMakefile :: "pyGen \<Rightarrow> pyGen" where
  "genMakefile g =
     (let gencmd = gencmd_of (cmdstr g)
      in g\<lparr>makefile := Printf (MakefileTemplate (outname g) (cmdstr g) gencmd (vm g)
                                (libext g)) (makefile g)\<rparr>)"

text \<open>
  \<open>genPre\<close> allocates the three shared printers, prints their preambles and creates the
  empty file \<open>__init__.py\<close>. \<open>Close\<close> on the \<open>nil\<close> file of a failed \<open>os.Create\<close> returns
  an error that is dropped.
\<close>

definition genPre :: "env \<Rightarrow> globals \<Rightarrow> pyGen \<Rightarrow> pyGen" where
  "genPre E G g =
     (let g = g\<lparr>gofile := [], pybuild := [], makefile := []\<rparr>;
          g = genGoPreamble E G g;
          g = genPyBuildPreamble g;
          g = genMakefile g;
          path = filepath_Join E (odir g) ''__init__.py''
      in g\<lparr>err := ErrorList_Add (os_Create E path) (err g), out := out g @ [(path, [])]\<rparr>)"

definition genPrintOut :: "env \<Rightarrow> string \<Rightarrow> buffer \<Rightarrow> pyGen \<Rightarrow> pyGen" where
  "genPrintOut E outfn pr g =
     (let path = filepath_Join E (odir g) outfn;
          g = g\<lparr>err := ErrorList_Add (os_Create E path) (err g)\<rparr>;
          g = g\<lparr>err := ErrorList_Add (io_Copy E path) (err g)\<rparr>
      in g\<lparr>out := out g @ [(path, pr)]\<rparr>)"

definition genOut :: "env \<Rightarrow> pyGen \<Rightarrow> pyGen" where
  "genOut E g =
     (let g = g\<lparr>pybuild := Printf (nl @ ''mod.generate(open('' @ sq @ outname g @ ''.c'' @ sq
                               @ '', '' @ sq @ ''w'' @ sq @ ''))'' @ nl @ nl) (pybuild g)\<rparr>;
          g = g\<lparr>gofile := Printf (nl @ nl) (gofile g)\<rparr>;
          g = g\<lparr>makefile := Printf (nl @ nl) (makefile g)\<rparr>;
          g = genPrintOut E (outname g @ ''.go'') (gofile g) g;
          g = genPrintOut E ''build.py'' (pybuild g) g
      in genPrintOut E ''Makefile'' (makefile g) g)"

definition genPkgWrapOut :: "env \<Rightarrow> pyGen \<Rightarrow> pyGen option" where
  "genPkgWrapOut E g =
     (let g = g\<lparr>pywrap := Printf (nl @ nl) (pywrap g)\<rparr>
      in case pkg g of
           None \<Rightarrow> None
         | Some p \<Rightarrow> Some (genPrintOut E (tp_Name (p_pkg p) @ ''.py'') (pywrap g) g))"

text \<open>
  \<^verbatim>\<open>
  for _, im := range imps {
      ipath := im.Path()
      if _, has := g.pkgmap[ipath]; has {
          impstr += fmt.Sprintf("from %s import %s\n", g.outname, im.Name())
      }
  }
  \<close>
\<close>

definition impstr_of :: "pyGen \<Rightarrow> (string \<times> string) list \<Rightarrow> string" where
  "impstr_of g imps =
     fold (\<lambda>(ipath, iname) impstr.
             if ipath \<in> pkgmap g then impstr @ ''from '' @ outname g @ '' import '' @ iname @ nl
             else impstr) imps []"

definition genPyWrapPreamble :: "pyGen \<Rightarrow> pyGen option" where
  "genPyWrapPreamble g =
     (case pkg g of
        None \<Rightarrow> None
      | Some p \<Rightarrow>
          (let n = tp_Name (p_pkg p);
               pkgimport = tp_Path (p_pkg p);
               pkgDoc = p_doc p;
               pkgDoc = (if pkgDoc \<noteq> [] then dq @ dq @ dq @ nl @ pkgDoc @ nl @ dq @ dq @ dq
                         else pkgDoc);
               impstr = impstr_of g (tp_Imports (p_pkg p))
           in Some (g\<lparr>pywrap := Printf (PyWrapPreamble (outname g) (cmdstr g) n pkgimport
                                          pkgDoc impstr) (pywrap g)\<rparr>)))"

text \<open>The external types: the type symbols whose package path is not in \<open>g.pkgmap\<close>.\<close>

definition genExtTypesGo :: "env \<Rightarrow> globals \<Rightarrow> pyGen \<Rightarrow> pyGen" where
  "genExtTypesGo E G g =
     (let g = g\<lparr>gofile := Printf (nl @ ''// ---- External Types Outside of Targeted Packages ---''
                              @ nl) (gofile g)\<rparr>
      in fold (\<lambda>n g. let s = st_sym (current G) n in
                      if \<not> isType s then g
                      else if tp_Path (gopkg s) \<in> pkgmap g then g
                      else genType E s True False g)
           (st_names (current G)) g)"

definition genExtTypesPyWrap :: "env \<Rightarrow> globals \<Rightarrow> pyGen \<Rightarrow> pyGen" where
  "genExtTypesPyWrap E G g =
     (let g = g\<lparr>pywrap := Printf (nl @ ''# ---- External Types Outside of Targeted Packages ---''
                              @ nl) (pywrap g)\<rparr>
      in fold (\<lambda>n g. let s = st_sym (current G) n in
                      if \<not> isType s then g
                      else if tp_Path (gopkg s) \<in> pkgmap g then g
                      else genType E s True True g)
           (st_names (current G)) g)"

definition genConst :: "env \<Rightarrow> Const \<Rightarrow> pyGen \<Rightarrow> pyGen" where
  "genConst E c g = genConstValue E c g"

definition genVar :: "env \<Rightarrow> Var \<Rightarrow> pyGen \<Rightarrow> pyGen" where
  "genVar E v g = genVarSetter E v (genVarGetter E v g)"

text \<open>
  \<open>genAll\<close> prints the sections of the current package. The first loop keeps the symbols
  with \<open>sym.isType()\<close> and \<open>sym.gopkg == g.pkg.pkg\<close>, a comparison of pointers.
\<close>

definition genAll :: "env \<Rightarrow> globals \<Rightarrow> pyGen \<Rightarrow> pyGen option" where
  "genAll E G g =
     (case pkg g of
        None \<Rightarrow> None
      | Some p \<Rightarrow>
          (let g = g\<lparr>gofile := Printf (nl @ ''// ---- Package: '' @ p_Name p @ '' ---'' @ nl)
                                 (gofile g)\<rparr>;
               g = g\<lparr>gofile := Printf (nl @ ''// ---- Types ---'' @ nl) (gofile g)\<rparr>;
               g = g\<lparr>pywrap := Printf (nl @ ''# ---- Types ---'' @ nl) (pywrap g)\<rparr>;
               g = fold (\<lambda>n g. let s = st_sym (current G) n in
                                if \<not> isType s \<or> tp_addr (gopkg s) \<noteq> tp_addr (p_pkg p) then g
                                else genType E s False False g)
                     (st_names (current G)) g;
               g = g\<lparr>pywrap := Printf (nl @ nl @ ''#---- Constants from Go: Python can only ask that you please don'' @ sq @ ''t change these! ---'' @ nl) (pywrap g)\<rparr>;
               g = fold (genConst E) (p_consts p) g;
               g = g\<lparr>gofile := Printf (nl @ nl @ ''// ---- Global Variables: can only use functions to access ---'' @ nl) (gofile g)\<rparr>;
               g = g\<lparr>pywrap := Printf (nl @ nl @ ''# ---- Global Variables: can only use functions to access ---'' @ nl) (pywrap g)\<rparr>;
               g = fold (genVar E) (p_vars p) g;
               g = g\<lparr>gofile := Printf (nl @ nl @ ''// ---- Interfaces ---'' @ nl) (gofile g)\<rparr>;
               g = g\<lparr>pywrap := Printf (nl @ nl @ ''# ---- Interfaces ---'' @ nl) (pywrap g)\<rparr>;
               g = fold (genInterface E) (p_ifaces p) g;
               g = g\<lparr>gofile := Printf (nl @ nl @ ''// ---- Structs ---'' @ nl) (gofile g)\<rparr>;
               g = g\<lparr>pywrap := Printf (nl @ nl @ ''# ---- Structs ---'' @ nl) (pywrap g)\<rparr>;
               g = fold (genStruct E) (p_structs p) g;
               g = g\<lparr>gofile := Printf (nl @ nl @ ''// ---- Constructors ---'' @ nl) (gofile g)\<rparr>;
               g = g\<lparr>pywrap := Printf (nl @ nl @ ''# ---- Constructors ---'' @ nl) (pywrap g)\<rparr>;
               g = fold (\<lambda>s g. fold (genFunc E) (ctors s) g) (p_structs p) g;
               g = g\<lparr>gofile := Printf (nl @ nl @ ''// ---- Functions ---'' @ nl) (gofile g)\<rparr>;
               g = g\<lparr>pywrap := Printf (nl @ nl @ ''# ---- Functions ---'' @ nl) (pywrap g)\<rparr>
           in Some (fold (genFunc E) (p_funcs p) g)))"

text \<open>
  \<^verbatim>\<open>
  g.pkg = p
  g.pywrap = &printer{buf: new(bytes.Buffer), indentEach: []byte("\t")}
  g.genPyWrapPreamble(); g.genExtTypesPyWrap(); g.genAll(); g.genPkgWrapOut()
  g.pkg = nil
  \<close>
\<close>

definition genPkg :: "env \<Rightarrow> globals \<Rightarrow> Package \<Rightarrow> pyGen \<Rightarrow> pyGen option" where
  "genPkg E G p g =
     (let g = g\<lparr>pkg := Some p\<rparr>;
          g = g\<lparr>pywrap := []\<rparr>
      in case genPyWrapPreamble g of
           None \<Rightarrow> None
         | Some g \<Rightarrow>
             (case genAll E G (genExtTypesPyWrap E G g) of
                None \<Rightarrow> None
              | Some g \<Rightarrow>
                  (case genPkgWrapOut E g of
                     None \<Rightarrow> None
                   | Some g \<Rightarrow> Some (g\<lparr>pkg := None\<rparr>))))"

text \<open>The loop \<open>for _, p := range Packages { g.genPkg(p) }\<close>.\<close>

fun genPkgs :: "env \<Rightarrow> globals \<Rightarrow> Package list \<Rightarrow> pyGen \<Rightarrow> pyGen option" where
  "genPkgs E G [] g = Some g"
| "genPkgs E G (p # ps) g =
     (case genPkg E G p g of None \<Rightarrow> None | Some g' \<Rightarrow> genPkgs E G ps g')"

text \<open>
  \<open>gen\<close> returns its error (\<open>None\<close> for \<open>nil\<close>) and the final struct.
  \<^verbatim>\<open>
  g.pkg = nil
  err := os.MkdirAll(g.odir, 0755)
  if err != nil {
      return fmt.Errorf("gopy: could not create output directory: %v", err)
  }
  g.genPackageMap(); g.genPre(); g.genExtTypesGo()
  for _, p := range Packages { g.genPkg(p) }
  g.genOut()
  if len(g.err) == 0 { return nil }
  return g.err.Error()
  \<close>
\<close>

definition gen :: "env \<Rightarrow> globals \<Rightarrow> pyGen \<Rightarrow> (string option \<times> pyGen) option" where
  "gen E G g =
     (let g = g\<lparr>pkg := None\<rparr>
      in case os_MkdirAll E (odir g) of
           Some m \<Rightarrow> Some (Some (''gopy: could not create output directory: '' @ m), g)
         | None \<Rightarrow>
             (case genPkgs E G (Packages G)
                     (genExtTypesGo E G (genPre E G (genPackageMap G g))) of
                None \<Rightarrow> None
              | Some g \<Rightarrow>
                  (let g = genOut E g
                   in if length (err g) = 0 then Some (None, g)
                      else Some (Some (ErrorList_Error (err g)), g))))"

text \<open>The struct that \<open>GenPyBind\<close> builds: every field it does not name is zero.\<close>

definition new_pyGen ::
  "string \<Rightarrow> string \<Rightarrow> string \<Rightarrow> string \<Rightarrow> string \<Rightarrow> int \<Rightarrow> pyGen" where
  "new_pyGen od on cs v le la =
     \<lparr>gofile = [], pybuild = [], pywrap = [], makefile = [], pkg = None, err = [],
      pkgmap = {}, odir = od, outname = on, cmdstr = cs, vm = v, libext = le, lang = la,
      out = []\<rparr>"

definition GenPyBind ::
  "env \<Rightarrow> globals \<Rightarrow> string \<Rightarrow> string \<Rightarrow> string \<Rightarrow> string \<Rightarrow> string \<Rightarrow> int
     \<Rightarrow> string option option" where
  "GenPyBind E G od on cs v le la =
     (case gen E G (new_pyGen od on cs v le la) of
        None \<Rightarrow> None
      | Some (e, g) \<Rightarrow> Some e)"

section \<open>What the spec says is emitted\<close>

text \<open>The global symbol list, in the order of \<open>current.names()\<close>.\<close>

definition symbols :: "globals \<Rightarrow> symbol list" where
  "symbols G = map (st_sym (current G)) (st_names (current G))"

text \<open>
  The spec's classifier:
  \<open>is_external(symbol) := symbol.isType AND symbol.owningPackage.path NOT IN TargetSet\<close>.
\<close>

definition is_external :: "string set \<Rightarrow> symbol \<Rightarrow> bool" where
  "is_external T s = (isType s \<and> tp_Path (gopkg s) \<notin> T)"

definition TargetSet :: "globals \<Rightarrow> string set" where
  "TargetSet G = set (map (\<lambda>p. tp_Path (p_pkg p)) (Packages G))"

definition external_types :: "string set \<Rightarrow> globals \<Rightarrow> symbol list" where
  "external_types T G = filter (is_external T) (symbols G)"

text \<open>The declaration kinds, and the spec's fixed order of their sections.\<close>

datatype kind = Types | Constants | Variables | Interfaces | Structs | Constructors | Functions

definition fixed_order :: "kind list" where
  "fixed_order = [Types, Constants, Variables, Interfaces, Structs, Constructors, Functions]"

text \<open>The emissions of one section of a target package, in the order of the table.\<close>

fun section_of :: "globals \<Rightarrow> Package \<Rightarrow> kind \<Rightarrow> emission list" where
  "section_of G p Types =
     map (\<lambda>s. GenType s False False)
       (filter (\<lambda>s. isType s \<and> tp_addr (gopkg s) = tp_addr (p_pkg p)) (symbols G))"
| "section_of G p Constants = map GenConstValue (p_consts p)"
| "section_of G p Variables = concat (map (\<lambda>v. [GenVarGetter v, GenVarSetter v]) (p_vars p))"
| "section_of G p Interfaces = map GenInterface (p_ifaces p)"
| "section_of G p Structs = map GenStruct (p_structs p)"
| "section_of G p Constructors = concat (map (\<lambda>s. map GenFunc (ctors s)) (p_structs p))"
| "section_of G p Functions = map GenFunc (p_funcs p)"

definition decls_in_order :: "globals \<Rightarrow> Package \<Rightarrow> emission list" where
  "decls_in_order G p = concat (map (section_of G p) fixed_order)"

text \<open>The heading that precedes a section in the glue file and in a wrapper file.\<close>

fun heading_go :: "kind \<Rightarrow> buffer" where
  "heading_go Types = [Txt (nl @ ''// ---- Types ---'' @ nl)]"
| "heading_go Constants = []"
| "heading_go Variables =
     [Txt (nl @ nl @ ''// ---- Global Variables: can only use functions to access ---'' @ nl)]"
| "heading_go Interfaces = [Txt (nl @ nl @ ''// ---- Interfaces ---'' @ nl)]"
| "heading_go Structs = [Txt (nl @ nl @ ''// ---- Structs ---'' @ nl)]"
| "heading_go Constructors = [Txt (nl @ nl @ ''// ---- Constructors ---'' @ nl)]"
| "heading_go Functions = [Txt (nl @ nl @ ''// ---- Functions ---'' @ nl)]"

fun heading_wrap :: "kind \<Rightarrow> buffer" where
  "heading_wrap Types = [Txt (nl @ ''# ---- Types ---'' @ nl)]"
| "heading_wrap Constants =
     [Txt (nl @ nl @ ''#---- Constants from Go: Python can only ask that you please don'' @ sq
           @ ''t change these! ---'' @ nl)]"
| "heading_wrap Variables =
     [Txt (nl @ nl @ ''# ---- Global Variables: can only use functions to access ---'' @ nl)]"
| "heading_wrap Interfaces = [Txt (nl @ nl @ ''# ---- Interfaces ---'' @ nl)]"
| "heading_wrap Structs = [Txt (nl @ nl @ ''# ---- Structs ---'' @ nl)]"
| "heading_wrap Constructors = [Txt (nl @ nl @ ''# ---- Constructors ---'' @ nl)]"
| "heading_wrap Functions = [Txt (nl @ nl @ ''# ---- Functions ---'' @ nl)]"

text \<open>The part of the glue file and of the wrapper file that belongs to a package.\<close>

definition package_go :: "globals \<Rightarrow> Package \<Rightarrow> buffer" where
  "package_go G p =
     Txt (nl @ ''// ---- Package: '' @ p_Name p @ '' ---'' @ nl)
     # concat (map (\<lambda>k. heading_go k @ map Emit (section_of G p k)) fixed_order)"

definition package_wrap :: "globals \<Rightarrow> Package \<Rightarrow> buffer" where
  "package_wrap G p =
     concat (map (\<lambda>k. heading_wrap k @ map Emit (section_of G p k)) fixed_order)"

text \<open>
  The wrapper file of a package, from the target set, the output name and the command
  string: the package's preamble, the external types, the package's own declarations.
\<close>

definition wrapper_preamble :: "string set \<Rightarrow> string \<Rightarrow> string \<Rightarrow> Package \<Rightarrow> string" where
  "wrapper_preamble T on cs p =
     PyWrapPreamble on cs (tp_Name (p_pkg p)) (tp_Path (p_pkg p))
       (if p_doc p \<noteq> [] then dq @ dq @ dq @ nl @ p_doc p @ nl @ dq @ dq @ dq else [])
       (concat (map (\<lambda>(ipath, iname). ''from '' @ on @ '' import '' @ iname @ nl)
                  (filter (\<lambda>(ipath, iname). ipath \<in> T) (tp_Imports (p_pkg p)))))"

definition wrapper_file :: "string set \<Rightarrow> string \<Rightarrow> string \<Rightarrow> globals \<Rightarrow> Package \<Rightarrow> buffer" where
  "wrapper_file T on cs G p =
     [Txt (wrapper_preamble T on cs p),
      Txt (nl @ ''# ---- External Types Outside of Targeted Packages ---'' @ nl)]
     @ map (\<lambda>s. Emit (GenType s True True)) (external_types T G)
     @ package_wrap G p
     @ [Txt (nl @ nl)]"

text \<open>The errors of a call that may fail, as a list: empty when the call succeeds.\<close>

definition errs_of :: "string option \<Rightarrow> string list" where
  "errs_of e = (case e of None \<Rightarrow> [] | Some m \<Rightarrow> [m])"

text \<open>The errors of \<open>os.Create\<close> and \<open>io.Copy\<close> for one file of the output directory.\<close>

definition flush_errs :: "env \<Rightarrow> string \<Rightarrow> string \<Rightarrow> string list" where
  "flush_errs E od fn =
     errs_of (os_Create E (filepath_Join E od fn)) @ errs_of (io_Copy E (filepath_Join E od fn))"

text \<open>The errors that the emitters and the flush of one package add, in order.\<close>

definition package_errs ::
  "env \<Rightarrow> string set \<Rightarrow> string \<Rightarrow> globals \<Rightarrow> Package \<Rightarrow> string list" where
  "package_errs E T od G p =
     concat (map (\<lambda>s. emitter_errs E (GenType s True True)) (external_types T G))
     @ concat (map (emitter_errs E) (decls_in_order G p))
     @ flush_errs E od (tp_Name (p_pkg p) @ ''.py'')"

text \<open>The three shared files of a run, from the struct that \<open>gen\<close> starts with.\<close>

definition glue_file :: "env \<Rightarrow> globals \<Rightarrow> pyGen \<Rightarrow> buffer" where
  "glue_file E G g =
     [Txt (goPreamble (outname g) (cmdstr g) (libcfg_of E (vm g)) (GoHandle G) (CGoHandle G)
             (pkgimport_of E)),
      Txt (nl @ ''// --- generated code for package: '' @ outname g @ '' below: ---'' @ nl @ nl),
      Txt (nl @ ''// ---- External Types Outside of Targeted Packages ---'' @ nl)]
     @ map (\<lambda>s. Emit (GenType s True False)) (external_types (TargetSet G) G)
     @ concat (map (package_go G) (Packages G))
     @ [Txt (nl @ nl)]"

definition build_file :: "pyGen \<Rightarrow> buffer" where
  "build_file g =
     [Txt (PyBuildPreamble (outname g) (cmdstr g)),
      Txt (nl @ ''mod.generate(open('' @ sq @ outname g @ ''.c'' @ sq @ '', '' @ sq @ ''w'' @ sq
           @ ''))'' @ nl @ nl)]"

definition recipe_file :: "pyGen \<Rightarrow> buffer" where
  "recipe_file g =
     [Txt (MakefileTemplate (outname g) (cmdstr g) (gencmd_of (cmdstr g)) (vm g) (libext g)),
      Txt (nl @ nl)]"

text \<open>
  The files that a run opens, in order, when the output directory could be made, and the
  errors it records, in order.
\<close>

definition run_out :: "env \<Rightarrow> globals \<Rightarrow> pyGen \<Rightarrow> (string \<times> buffer) list" where
  "run_out E G g =
     [(filepath_Join E (odir g) ''__init__.py'', [])]
     @ map (\<lambda>p. (filepath_Join E (odir g) (tp_Name (p_pkg p) @ ''.py''),
                  wrapper_file (TargetSet G) (outname g) (cmdstr g) G p)) (Packages G)
     @ [(filepath_Join E (odir g) (outname g @ ''.go''), glue_file E G g),
        (filepath_Join E (odir g) ''build.py'', build_file g),
        (filepath_Join E (odir g) ''Makefile'', recipe_file g)]"

definition run_errs :: "env \<Rightarrow> globals \<Rightarrow> pyGen \<Rightarrow> string list" where
  "run_errs E G g =
     errs_of (os_Create E (filepath_Join E (odir g) ''__init__.py''))
     @ concat (map (\<lambda>s. emitter_errs E (GenType s True False)) (external_types (TargetSet G) G))
     @ concat (map (package_errs E (TargetSet G) (odir g) G) (Packages G))
     @ flush_errs E (odir g) (outname g @ ''.go'')
     @ flush_errs E (odir g) ''build.py''
     @ flush_errs E (odir g) ''Makefile''"

text \<open>
  The struct at the end of a run in which \<open>os.MkdirAll\<close> succeeded. \<open>g.pywrap\<close> still
  points to the printer of the last package.
\<close>

definition final :: "env \<Rightarrow> globals \<Rightarrow> pyGen \<Rightarrow> pyGen" where
  "final E G g =
     g\<lparr>gofile := glue_file E G g, pybuild := build_file g,
       pywrap := (if Packages G = [] then pywrap g
                  else wrapper_file (TargetSet G) (outname g) (cmdstr g) G (last (Packages G))),
       makefile := recipe_file g, pkg := None, err := err g @ run_errs E G g,
       pkgmap := TargetSet G, out := out g @ run_out E G g\<rparr>"

text \<open>The emissions of a variable and of a constant.\<close>

fun is_var_emission :: "emission \<Rightarrow> bool" where
  "is_var_emission (GenVarGetter v) = True"
| "is_var_emission (GenVarSetter v) = True"
| "is_var_emission e = False"

fun is_const_emission :: "emission \<Rightarrow> bool" where
  "is_const_emission (GenConstValue c) = True"
| "is_const_emission e = False"

section \<open>A sample table and sample runs\<close>

text \<open>
  Two target packages \<open>x/a\<close> and \<open>x/b\<close>; \<open>x/a\<close> imports \<open>x/b\<close> and \<open>fmt\<close>. The table
  holds a function and a type of \<open>x/a\<close>, a type of \<open>x/b\<close> and the type \<open>fmt.Stringer\<close>,
  and the import map has the keys \<open>fmt\<close> and \<open>os\<close>.
\<close>

definition tpA :: types_Package where
  "tpA = \<lparr>tp_addr = 1, tp_Path = ''x/a'', tp_Name = ''a'',
          tp_Imports = [(''x/b'', ''b''), (''fmt'', ''fmt'')]\<rparr>"

definition tpB :: types_Package where
  "tpB = \<lparr>tp_addr = 2, tp_Path = ''x/b'', tp_Name = ''b'', tp_Imports = []\<rparr>"

definition tpFmt :: types_Package where
  "tpFmt = \<lparr>tp_addr = 3, tp_Path = ''fmt'', tp_Name = ''fmt'', tp_Imports = []\<rparr>"

definition symF :: symbol where
  "symF = \<lparr>goname = ''a.F'', isType = False, gopkg = tpA\<rparr>"

definition symT :: symbol where
  "symT = \<lparr>goname = ''a.T'', isType = True, gopkg = tpA\<rparr>"

definition symU :: symbol where
  "symU = \<lparr>goname = ''b.U'', isType = True, gopkg = tpB\<rparr>"

definition symStringer :: symbol where
  "symStringer = \<lparr>goname = ''fmt.Stringer'', isType = True, gopkg = tpFmt\<rparr>"

definition table0 :: symtab where
  "table0 =
     \<lparr>st_names = [''a.F'', ''a.T'', ''b.U'', ''fmt.Stringer''],
      st_sym = (\<lambda>n. if n = ''a.F'' then symF else if n = ''a.T'' then symT
                     else if n = ''b.U'' then symU else symStringer),
      st_imports = [''fmt'' \<mapsto> ''fmt'', ''os'' \<mapsto> ''os'']\<rparr>"

definition pkgA :: Package where
  "pkgA =
     \<lparr>p_pkg = tpA, p_doc = ''Package a.'', p_consts = [Const ''C''], p_vars = [Var ''V''],
      p_ifaces = [Interface ''I''], p_structs = [\<lparr>s_name = ''S'', ctors = [Func ''NewS'']\<rparr>],
      p_funcs = [Func ''F''], p_Name = ''a''\<rparr>"

definition pkgB :: Package where
  "pkgB =
     \<lparr>p_pkg = tpB, p_doc = [], p_consts = [], p_vars = [], p_ifaces = [], p_structs = [],
      p_funcs = [Func ''G''], p_Name = ''b''\<rparr>"

definition globals0 :: globals where
  "globals0 =
     \<lparr>Packages = [pkgA, pkgB], current = table0, GoHandle = ''int64'',
      CGoHandle = ''C.longlong'', PyHandle = ''int64_t''\<rparr>"


text \<open>The same table with no target package.\<close>

definition globals_empty :: globals where
  "globals_empty = globals0\<lparr>Packages := []\<rparr>"

text \<open>
  A world in which every file operation succeeds and no emitter fails. Its path functions
  are those of \<open>path/filepath\<close> on the paths of the sample runs: a file name without a
  directory, and the directory \<open>out\<close>.
\<close>

definition env0 :: env where
  "env0 =
     \<lparr>os_MkdirAll = (\<lambda>p. None), os_Create = (\<lambda>p. None), io_Copy = (\<lambda>p. None),
      range_imports = [''fmt'', ''os''],
      fmt_q = (\<lambda>s. dq @ s @ dq),
      filepath_Split = (\<lambda>s. ([], s)),
      filepath_Clean = (\<lambda>s. ''.''),
      filepath_Join = (\<lambda>a b. if a = [] then b else a @ ''/'' @ b),
      emitter_errs = (\<lambda>e. [])\<rparr>"

text \<open>The same world, with the keys of the import map visited in the other order.\<close>

definition env1 :: env where
  "env1 = env0\<lparr>range_imports := [''os'', ''fmt'']\<rparr>"

text \<open>
  A world in which the output directory cannot be made, no file can be created and every
  emitter reports an error.
\<close>

definition env_nodir :: env where
  "env_nodir =
     env0\<lparr>os_MkdirAll := (\<lambda>p. Some ''permission denied''),
          os_Create := (\<lambda>p. Some ''disk full''),
          emitter_errs := (\<lambda>e. [''bad declaration''])\<rparr>"

text \<open>
  A world in which the emitter of the constant \<open>C\<close> reports an error and \<open>build.py\<close>
  cannot be created.
\<close>

definition env_errs :: env where
  "env_errs =
     env0\<lparr>os_Create := (\<lambda>p. if p = ''out/build.py'' then Some ''disk full; '' else None),
          emitter_errs := (\<lambda>e. if e = GenConstValue (Const ''C'') then [''bad constant; '']
                                  else [])\<rparr>"

definition g0 :: pyGen where
  "g0 = new_pyGen ''out'' ''x'' ''gopy build -output=out x/a x/b'' ''python3'' ''.so'' 3"

section \<open>How the loops and the methods change the struct\<close>

lemma emits_append: "emits (a @ b) = emits a @ emits b"
  by (induction a rule: emits.induct) simp_all

lemma emits_map_Emit: "emits (map Emit es) = es"
  by (induction es) simp_all

lemma fold_emitter_eq:
  "fold (\<lambda>e. emitter E e a b) es g =
     g\<lparr>gofile := gofile g @ (if a then map Emit es else []),
       pywrap := pywrap g @ (if b then map Emit es else []),
       err := err g @ concat (map (emitter_errs E) es)\<rparr>"
  by (induction es arbitrary: g) (simp_all add: emitter_def)

lemma fold_genConst:
  "fold (genConst E) cs g = fold (\<lambda>e. emitter E e True True) (map GenConstValue cs) g"
  by (induction cs arbitrary: g) (simp_all add: genConst_def genConstValue_def)

lemma fold_genVar:
  "fold (genVar E) vs g =
     fold (\<lambda>e. emitter E e True True) (concat (map (\<lambda>v. [GenVarGetter v, GenVarSetter v]) vs)) g"
  by (induction vs arbitrary: g) (simp_all add: genVar_def genVarGetter_def genVarSetter_def)

lemma fold_genInterface:
  "fold (genInterface E) xs g = fold (\<lambda>e. emitter E e True True) (map GenInterface xs) g"
  by (induction xs arbitrary: g) (simp_all add: genInterface_def)

lemma fold_genStruct:
  "fold (genStruct E) xs g = fold (\<lambda>e. emitter E e True True) (map GenStruct xs) g"
  by (induction xs arbitrary: g) (simp_all add: genStruct_def)

lemma fold_genFunc:
  "fold (genFunc E) xs g = fold (\<lambda>e. emitter E e True True) (map GenFunc xs) g"
  by (induction xs arbitrary: g) (simp_all add: genFunc_def)

lemma fold_ctors:
  "fold (\<lambda>s g. fold (genFunc E) (ctors s) g) ss g =
     fold (\<lambda>e. emitter E e True True) (concat (map (\<lambda>s. map GenFunc (ctors s)) ss)) g"
  by (induction ss arbitrary: g) (simp_all add: fold_genFunc)

lemma pkgmap_emitter: "pkgmap (emitter E e a b g) = pkgmap g"
  by (simp add: emitter_def)

lemma fold_ext:
  "fold (\<lambda>n g. if \<not> isType (st_sym (current G) n) then g
                 else if tp_Path (gopkg (st_sym (current G) n)) \<in> pkgmap g then g
                 else genType E (st_sym (current G) n) True w g) (st_names (current G)) g =
   fold (\<lambda>e. emitter E e (\<not> w) w) (map (\<lambda>s. GenType s True w) (external_types (pkgmap g) G)) g"
proof -
  have "fold (\<lambda>n g. if \<not> isType (st_sym (current G) n) then g
                 else if tp_Path (gopkg (st_sym (current G) n)) \<in> pkgmap g then g
                 else genType E (st_sym (current G) n) True w g) ns g =
        fold (\<lambda>e. emitter E e (\<not> w) w)
          (map (\<lambda>s. GenType s True w)
             (filter (is_external (pkgmap g)) (map (st_sym (current G)) ns))) g" for ns
    by (induction ns arbitrary: g) (simp_all add: genType_def is_external_def pkgmap_emitter)
  then show ?thesis by (simp add: symbols_def external_types_def)
qed

lemma fold_own_types:
  "fold (\<lambda>n g. if \<not> isType (st_sym (current G) n)
                    \<or> tp_addr (gopkg (st_sym (current G) n)) \<noteq> tp_addr (p_pkg p) then g
                 else genType E (st_sym (current G) n) False False g) (st_names (current G)) g =
   fold (\<lambda>e. emitter E e True True) (section_of G p Types) g"
proof -
  have "fold (\<lambda>n g. if \<not> isType (st_sym (current G) n)
                    \<or> tp_addr (gopkg (st_sym (current G) n)) \<noteq> tp_addr (p_pkg p) then g
                 else genType E (st_sym (current G) n) False False g) ns g =
        fold (\<lambda>e. emitter E e True True)
          (map (\<lambda>s. GenType s False False)
             (filter (\<lambda>s. isType s \<and> tp_addr (gopkg s) = tp_addr (p_pkg p))
                (map (st_sym (current G)) ns))) g" for ns
    by (induction ns arbitrary: g) (simp_all add: genType_def)
  then show ?thesis by (simp add: symbols_def)
qed

lemma genExtTypesPyWrap_eq:
  "genExtTypesPyWrap E G g =
     g\<lparr>pywrap := pywrap g
          @ Txt (nl @ ''# ---- External Types Outside of Targeted Packages ---'' @ nl)
          # map (\<lambda>s. Emit (GenType s True True)) (external_types (pkgmap g) G),
       err := err g @ concat (map (\<lambda>s. emitter_errs E (GenType s True True))
                                 (external_types (pkgmap g) G))\<rparr>"
  apply (simp only: genExtTypesPyWrap_def Let_def)
  apply (simp only: fold_ext)
  apply (simp only: fold_emitter_eq)
  apply (simp add: Printf_def comp_def)
  done

lemma genExtTypesGo_eq:
  "genExtTypesGo E G g =
     g\<lparr>gofile := gofile g
          @ Txt (nl @ ''// ---- External Types Outside of Targeted Packages ---'' @ nl)
          # map (\<lambda>s. Emit (GenType s True False)) (external_types (pkgmap g) G),
       err := err g @ concat (map (\<lambda>s. emitter_errs E (GenType s True False))
                                 (external_types (pkgmap g) G))\<rparr>"
  apply (simp only: genExtTypesGo_def Let_def)
  apply (simp only: fold_ext)
  apply (simp only: fold_emitter_eq)
  apply (simp add: Printf_def comp_def)
  done

lemma fold_own_types_simp:
  "fold (\<lambda>n g. if isType (st_sym (current G) n)
                    \<longrightarrow> tp_addr (gopkg (st_sym (current G) n)) \<noteq> tp_addr (p_pkg p) then g
                 else genType E (st_sym (current G) n) False False g) (st_names (current G)) g =
   fold (\<lambda>e. emitter E e True True) (section_of G p Types) g"
  using fold_own_types[of G p E g] by simp

lemma genAll_eq:
  assumes "pkg g = Some p"
  shows "genAll E G g =
     Some (g\<lparr>gofile := gofile g @ package_go G p,
             pywrap := pywrap g @ package_wrap G p,
             err := err g @ concat (map (emitter_errs E) (decls_in_order G p))\<rparr>)"
  using assms
  by (simp add: genAll_def Let_def Printf_def fold_own_types_simp fold_genConst fold_genVar
      fold_genInterface fold_genStruct fold_ctors fold_genFunc fold_emitter_eq
      package_go_def package_wrap_def decls_in_order_def fixed_order_def)

lemma ErrorList_Add_eq: "ErrorList_Add e l = l @ errs_of e"
  by (simp add: ErrorList_Add_def errs_of_def split: option.splits)

lemma genPrintOut_eq:
  "genPrintOut E fn pr g =
     g\<lparr>err := err g @ flush_errs E (odir g) fn,
       out := out g @ [(filepath_Join E (odir g) fn, pr)]\<rparr>"
  by (simp add: genPrintOut_def Let_def ErrorList_Add_eq flush_errs_def)

lemma impstr_fold:
  "fold (\<lambda>(ipath, iname) impstr.
           if ipath \<in> T then impstr @ ''from '' @ on @ '' import '' @ iname @ nl else impstr)
     imps acc =
   acc @ concat (map (\<lambda>(ipath, iname). ''from '' @ on @ '' import '' @ iname @ nl)
                   (filter (\<lambda>(ipath, iname). ipath \<in> T) imps))"
  by (induction imps arbitrary: acc) (auto simp: case_prod_beta)

lemma genPyWrapPreamble_eq:
  assumes "pkg g = Some p"
  shows "genPyWrapPreamble g =
     Some (g\<lparr>pywrap := pywrap g @ [Txt (wrapper_preamble (pkgmap g) (outname g) (cmdstr g) p)]\<rparr>)"
  using assms
  by (simp add: genPyWrapPreamble_def Let_def impstr_of_def impstr_fold wrapper_preamble_def
      Printf_def)

lemma genPkgWrapOut_eq:
  assumes "pkg g = Some p"
  shows "genPkgWrapOut E g =
     Some (g\<lparr>pywrap := pywrap g @ [Txt (nl @ nl)],
             err := err g @ flush_errs E (odir g) (tp_Name (p_pkg p) @ ''.py''),
             out := out g @ [(filepath_Join E (odir g) (tp_Name (p_pkg p) @ ''.py''),
                              pywrap g @ [Txt (nl @ nl)])]\<rparr>)"
  using assms by (simp add: genPkgWrapOut_def Let_def Printf_def genPrintOut_eq)

lemma genPkg_eq:
  "genPkg E G p g =
     Some (g\<lparr>gofile := gofile g @ package_go G p,
             pywrap := wrapper_file (pkgmap g) (outname g) (cmdstr g) G p,
             pkg := None,
             err := err g @ package_errs E (pkgmap g) (odir g) G p,
             out := out g @ [(filepath_Join E (odir g) (tp_Name (p_pkg p) @ ''.py''),
                              wrapper_file (pkgmap g) (outname g) (cmdstr g) G p)]\<rparr>)"
  by (simp add: genPkg_def Let_def genPyWrapPreamble_eq genExtTypesPyWrap_eq genAll_eq
      genPkgWrapOut_eq wrapper_file_def package_errs_def)

lemma genPkgs_eq:
  "genPkgs E G ps g =
     Some (g\<lparr>gofile := gofile g @ concat (map (package_go G) ps),
             pywrap := (if ps = [] then pywrap g
                        else wrapper_file (pkgmap g) (outname g) (cmdstr g) G (last ps)),
             pkg := (if ps = [] then pkg g else None),
             err := err g @ concat (map (package_errs E (pkgmap g) (odir g) G) ps),
             out := out g @ map (\<lambda>p. (filepath_Join E (odir g) (tp_Name (p_pkg p) @ ''.py''),
                                       wrapper_file (pkgmap g) (outname g) (cmdstr g) G p)) ps\<rparr>)"
proof (induction ps arbitrary: g)
  case Nil
  show ?case by simp
next
  case (Cons p ps)
  show ?case by (simp add: genPkg_eq Cons.IH)
qed

lemma fold_insert_set: "fold (\<lambda>p m. insert (f p) m) ps A = set (map f ps) \<union> A"
  by (induction ps arbitrary: A) auto

lemma genPackageMap_eq: "genPackageMap G g = g\<lparr>pkgmap := TargetSet G\<rparr>"
  by (simp add: genPackageMap_def fold_insert_set TargetSet_def)

lemma genPre_eq:
  "genPre E G g =
     g\<lparr>gofile := [Txt (goPreamble (outname g) (cmdstr g) (libcfg_of E (vm g)) (GoHandle G)
                          (CGoHandle G) (pkgimport_of E)),
                   Txt (nl @ ''// --- generated code for package: '' @ outname g
                        @ '' below: ---'' @ nl @ nl)],
       pybuild := [Txt (PyBuildPreamble (outname g) (cmdstr g))],
       makefile := [Txt (MakefileTemplate (outname g) (cmdstr g) (gencmd_of (cmdstr g)) (vm g)
                           (libext g))],
       err := err g @ errs_of (os_Create E (filepath_Join E (odir g) ''__init__.py'')),
       out := out g @ [(filepath_Join E (odir g) ''__init__.py'', [])]\<rparr>"
  by (simp add: genPre_def Let_def genGoPreamble_def genPyBuildPreamble_def genMakefile_def
      Printf_def ErrorList_Add_eq)

lemma genOut_eq:
  "genOut E g =
     g\<lparr>gofile := gofile g @ [Txt (nl @ nl)],
       pybuild := pybuild g @ [Txt (nl @ ''mod.generate(open('' @ sq @ outname g @ ''.c'' @ sq
                                   @ '', '' @ sq @ ''w'' @ sq @ ''))'' @ nl @ nl)],
       makefile := makefile g @ [Txt (nl @ nl)],
       err := err g @ flush_errs E (odir g) (outname g @ ''.go'')
              @ flush_errs E (odir g) ''build.py'' @ flush_errs E (odir g) ''Makefile'',
       out := out g @ [(filepath_Join E (odir g) (outname g @ ''.go''), gofile g @ [Txt (nl @ nl)]),
                       (filepath_Join E (odir g) ''build.py'',
                        pybuild g @ [Txt (nl @ ''mod.generate(open('' @ sq @ outname g @ ''.c''
                                          @ sq @ '', '' @ sq @ ''w'' @ sq @ ''))'' @ nl @ nl)]),
                       (filepath_Join E (odir g) ''Makefile'', makefile g @ [Txt (nl @ nl)])]\<rparr>"
  by (simp add: genOut_def Let_def Printf_def genPrintOut_eq)

lemma gen_pass:
  "genOut E (the (genPkgs E G (Packages G)
      (genExtTypesGo E G (genPre E G (genPackageMap G (g\<lparr>pkg := None\<rparr>)))))) = final E G g"
  by (simp add: genPackageMap_eq genPre_eq genExtTypesGo_eq genPkgs_eq genOut_eq final_def
      glue_file_def build_file_def recipe_file_def run_errs_def run_out_def)

lemma gen_ok:
  assumes "os_MkdirAll E (odir g) = None"
  shows "gen E G g =
     Some (if err g @ run_errs E G g = [] then None
           else Some (ErrorList_Error (err g @ run_errs E G g)), final E G g)"
proof -
  have "genPkgs E G (Packages G)
          (genExtTypesGo E G (genPre E G (genPackageMap G (g\<lparr>pkg := None\<rparr>)))) \<noteq> None"
    by (simp add: genPkgs_eq)
  then obtain g' where g': "genPkgs E G (Packages G)
          (genExtTypesGo E G (genPre E G (genPackageMap G (g\<lparr>pkg := None\<rparr>)))) = Some g'"
    by blast
  have fin: "genOut E g' = final E G g"
    using gen_pass[of E G g] g' by simp
  have e: "err (final E G g) = err g @ run_errs E G g"
    by (simp add: final_def)
  show ?thesis
    using assms g' fin e by (simp add: gen_def Let_def)
qed

lemma gen_fail:
  assumes "os_MkdirAll E (odir g) = Some m"
  shows "gen E G g = Some (Some (''gopy: could not create output directory: '' @ m), g\<lparr>pkg := None\<rparr>)"
  using assms by (simp add: gen_def Let_def)
section \<open>Evaluations and further facts used below\<close>

lemma emits_map_Emit_fun: "emits (map (\<lambda>x. Emit (f x)) xs) = map f xs"
  by (induction xs) simp_all

lemma emits_map_Emit_comp: "emits (map (Emit \<circ> f) xs) = map f xs"
  by (induction xs) simp_all

lemma emits_package_go: "emits (package_go G p) = decls_in_order G p"
  by (simp add: package_go_def decls_in_order_def fixed_order_def emits_append emits_map_Emit emits_map_Emit_comp)

lemma emits_package_wrap: "emits (package_wrap G p) = decls_in_order G p"
  by (simp add: package_wrap_def decls_in_order_def fixed_order_def emits_append emits_map_Emit emits_map_Emit_comp)

lemma filter_var_decls:
  "filter is_var_emission (decls_in_order G p)
     = concat (map (\<lambda>v. [GenVarGetter v, GenVarSetter v]) (p_vars p))"
  by (simp add: decls_in_order_def fixed_order_def filter_map filter_concat comp_def)

lemma filter_const_decls:
  "filter is_const_emission (decls_in_order G p) = map GenConstValue (p_consts p)"
  by (simp add: decls_in_order_def fixed_order_def filter_map filter_concat comp_def)



lemma emits_wrapper_file:
  "emits (wrapper_file T on cs G p)
     = map (\<lambda>s. GenType s True True) (external_types T G) @ decls_in_order G p"
  by (simp add: wrapper_file_def emits_append emits_map_Emit_fun emits_package_wrap)

lemma emits_concat: "emits (concat bs) = concat (map emits bs)"
  by (induction bs) (simp_all add: emits_append)

lemma emits_glue_file:
  "emits (glue_file E G g)
     = map (\<lambda>s. GenType s True False) (external_types (TargetSet G) G)
       @ concat (map (decls_in_order G) (Packages G))"
  by (simp add: glue_file_def emits_append emits_map_Emit_fun emits_concat comp_def
      emits_package_go)

lemma decls_in_order_sections:
  "decls_in_order G p
     = section_of G p Types @ section_of G p Constants @ section_of G p Variables
       @ section_of G p Interfaces @ section_of G p Structs @ section_of G p Constructors
       @ section_of G p Functions"
  by (simp add: decls_in_order_def fixed_order_def del: section_of.simps)

lemmas sample_defs = globals0_def table0_def pkgA_def pkgB_def tpA_def tpB_def tpFmt_def
  symF_def symT_def symU_def symStringer_def

lemma symbols_globals0: "symbols globals0 = [symF, symT, symU, symStringer]"
  by (simp add: symbols_def globals0_def table0_def)


lemma TargetSet_globals0: "TargetSet globals0 = {''x/a'', ''x/b''}"
  by (simp add: TargetSet_def sample_defs)

lemma external_types_globals0: "external_types {''x/a'', ''x/b''} globals0 = [symStringer]"
  by (simp add: external_types_def symbols_globals0 is_external_def) (simp add: sample_defs)

lemma external_types_none_globals0: "external_types {} globals0 = [symT, symU, symStringer]"
  by (simp add: external_types_def symbols_globals0 is_external_def) (simp add: sample_defs)

lemma decls_pkgA:
  "decls_in_order globals0 pkgA
     = [GenType symT False False, GenConstValue (Const ''C''), GenVarGetter (Var ''V''),
        GenVarSetter (Var ''V''), GenInterface (Interface ''I''),
        GenStruct \<lparr>s_name = ''S'', ctors = [Func ''NewS'']\<rparr>, GenFunc (Func ''NewS''),
        GenFunc (Func ''F'')]"
  by (simp add: decls_in_order_def fixed_order_def symbols_globals0) (simp add: sample_defs)

lemma decls_pkgB:
  "decls_in_order globals0 pkgB = [GenType symU False False, GenFunc (Func ''G'')]"
  by (simp add: decls_in_order_def fixed_order_def symbols_globals0) (simp add: sample_defs)

lemma g0_fields:
  "odir g0 = ''out''" "outname g0 = ''x''" "err g0 = []" "out g0 = []" "gofile g0 = []"
  "pywrap g0 = []" "pkg g0 = None" "pkgmap g0 = {}" "vm g0 = ''python3''"
  "cmdstr g0 = ''gopy build -output=out x/a x/b''" "libext g0 = ''.so''"
  by (simp_all add: g0_def new_pyGen_def)




lemma env0_fields:
  "os_MkdirAll env0 = (\<lambda>p. None)" "os_Create env0 = (\<lambda>p. None)" "io_Copy env0 = (\<lambda>p. None)"
  "filepath_Join env0 = (\<lambda>a b. if a = [] then b else a @ ''/'' @ b)"
  "emitter_errs env0 = (\<lambda>e. [])"
  by (simp_all add: env0_def)

lemma env_errs_fields:
  "os_MkdirAll env_errs = (\<lambda>p. None)"
  "os_Create env_errs = (\<lambda>p. if p = ''out/build.py'' then Some ''disk full; '' else None)"
  "io_Copy env_errs = (\<lambda>p. None)"
  "filepath_Join env_errs = (\<lambda>a b. if a = [] then b else a @ ''/'' @ b)"
  "emitter_errs env_errs
     = (\<lambda>e. if e = GenConstValue (Const ''C'') then [''bad constant; ''] else [])"
  by (simp_all add: env_errs_def env0_def)

lemma Packages_globals0: "Packages globals0 = [pkgA, pkgB]"
  by (simp add: globals0_def)

lemma run_errs_env_errs: "run_errs env_errs globals0 g0 = [''bad constant; '', ''disk full; '']"
  by (simp add: run_errs_def package_errs_def flush_errs_def errs_of_def g0_fields
      env_errs_fields Packages_globals0 TargetSet_globals0 external_types_globals0
      decls_pkgA decls_pkgB)
     (simp add: pkgA_def pkgB_def tpA_def tpB_def)

lemma env_nodir_MkdirAll: "os_MkdirAll env_nodir = (\<lambda>p. Some ''permission denied'')"
  by (simp add: env_nodir_def)

lemma g0_pkg_None: "g0\<lparr>pkg := None\<rparr> = g0"
  by (simp add: g0_def new_pyGen_def)

lemma symbols_globals_empty: "symbols globals_empty = [symF, symT, symU, symStringer]"
  by (simp add: symbols_def globals_empty_def globals0_def table0_def)

lemma type_symbols_globals_empty:
  "filter isType (symbols globals_empty) = [symT, symU, symStringer]"
  by (simp add: symbols_globals_empty) (simp add: symF_def symT_def symU_def symStringer_def)

lemma run_errs_env0_empty: "run_errs env0 globals_empty g0 = []"
  by (simp add: run_errs_def flush_errs_def errs_of_def env0_fields globals_empty_def)

lemma goPreamble_inj_imports:
  "goPreamble a1 a2 a3 a4 a5 x = goPreamble a1 a2 a3 a4 a5 y \<Longrightarrow> x = y"
  by (simp add: goPreamble_def)

lemma pkgimport_of_env0: "pkgimport_of env0 = nl @ tab @ dq @ ''fmt'' @ dq @ nl @ tab @ dq @ ''os'' @ dq"
  by (simp add: pkgimport_of_def env0_def)

lemma pkgimport_of_env1: "pkgimport_of env1 = nl @ tab @ dq @ ''os'' @ dq @ nl @ tab @ dq @ ''fmt'' @ dq"
  by (simp add: pkgimport_of_def env1_def env0_def)

lemma pkgimport_differs: "pkgimport_of env0 \<noteq> pkgimport_of env1"
  by (simp add: pkgimport_of_env0 pkgimport_of_env1 nl_def tab_def dq_def)

lemma libcfg_env1: "libcfg_of env1 v = libcfg_of env0 v"
  by (simp add: libcfg_of_def env1_def)

section \<open>The claims\<close>

text \<open>
  C1. The claim is that two runs on the same symbol table and configuration write the same
  bytes, and in particular the same import list into the glue preamble. \<open>genGoPreamble\<close>
  builds that list by a \<open>range\<close> over the Go map \<open>current.imports\<close>, and Go does not fix
  the order of such a range. On the sample table, whose import map has the keys \<open>fmt\<close> and
  \<open>os\<close>, the two worlds \<open>env0\<close> and \<open>env1\<close> differ only in that order; both orders are
  ranges of the map; the import lists differ, and so do the glue buffers and the files
  written.
\<close>

theorem glue_file_depends_on_map_order:
  "map_range (st_imports (current globals0)) (range_imports env0)
   \<and> map_range (st_imports (current globals0)) (range_imports env1)
   \<and> env1 = env0\<lparr>range_imports := [''os'', ''fmt'']\<rparr>
   \<and> pkgimport_of env0 = nl @ tab @ dq @ ''fmt'' @ dq @ nl @ tab @ dq @ ''os'' @ dq
   \<and> pkgimport_of env1 = nl @ tab @ dq @ ''os'' @ dq @ nl @ tab @ dq @ ''fmt'' @ dq
   \<and> map_option (\<lambda>(e, g'). gofile g') (gen env0 globals0 g0)
       \<noteq> map_option (\<lambda>(e, g'). gofile g') (gen env1 globals0 g0)
   \<and> map_option (\<lambda>(e, g'). out g') (gen env0 globals0 g0)
       \<noteq> map_option (\<lambda>(e, g'). out g') (gen env1 globals0 g0)"
proof -
  have r0: "map_range (st_imports (current globals0)) (range_imports env0)"
    by (auto simp: map_range_def globals0_def table0_def env0_def)
  have r1: "map_range (st_imports (current globals0)) (range_imports env1)"
    by (auto simp: map_range_def globals0_def table0_def env1_def env0_def)
  have h0: "os_MkdirAll env0 (odir g0) = None"
    by (simp add: env0_def)
  have h1: "os_MkdirAll env1 (odir g0) = None"
    by (simp add: env1_def env0_def)
  have d: "glue_file env0 globals0 g0 \<noteq> glue_file env1 globals0 g0"
    using pkgimport_differs goPreamble_inj_imports
    by (auto simp: glue_file_def libcfg_env1)
  have gf: "gofile (final env0 globals0 g0) \<noteq> gofile (final env1 globals0 g0)"
    using d by (simp add: final_def)
  have j: "filepath_Join env1 = filepath_Join env0"
    by (simp add: env1_def)
  have "run_out env0 globals0 g0 \<noteq> run_out env1 globals0 g0"
    using d by (simp add: run_out_def j)
  then have o: "out (final env0 globals0 g0) \<noteq> out (final env1 globals0 g0)"
    by (simp add: final_def)
  have e: "env1 = env0\<lparr>range_imports := [''os'', ''fmt'']\<rparr>"
    by (simp add: env1_def)
  have c1: "map_option (\<lambda>(e, g'). gofile g') (gen env0 globals0 g0)
       \<noteq> map_option (\<lambda>(e, g'). gofile g') (gen env1 globals0 g0)"
    using gf by (simp add: gen_ok[OF h0] gen_ok[OF h1])
  have c2: "map_option (\<lambda>(e, g'). out g') (gen env0 globals0 g0)
       \<noteq> map_option (\<lambda>(e, g'). out g') (gen env1 globals0 g0)"
    using o by (simp add: gen_ok[OF h0] gen_ok[OF h1])
  show ?thesis
    using r0 r1 e pkgimport_of_env0 pkgimport_of_env1 c1 c2 by blast
qed

text \<open>
  C2, as stated, fails. The claim is that a failure to create the output directory is
  recorded, the remaining steps run, and the returned text holds the later failures too.
  In the world \<open>env_nodir\<close> the directory cannot be made, no file can be created and every
  emitter reports an error; \<open>GenPyBind\<close> returns the directory error, whose text holds
  neither of the later messages.
\<close>

theorem mkdir_failure_hides_later_failures:
  "GenPyBind env_nodir globals0 ''out'' ''x'' ''gopy build -output=out x/a x/b'' ''python3''
     ''.so'' 3
   = Some (Some ''gopy: could not create output directory: permission denied'')
   \<and> os_Create env_nodir ''out/x.go'' = Some ''disk full''
   \<and> emitter_errs env_nodir (GenConstValue (Const ''C'')) = [''bad declaration'']
   \<and> \<not> strings_Contains ''gopy: could not create output directory: permission denied''
         ''disk full''
   \<and> \<not> strings_Contains ''gopy: could not create output directory: permission denied''
         ''bad declaration''"
proof -
  have h: "os_MkdirAll env_nodir (odir g0) = Some ''permission denied''"
    by (simp add: env_nodir_MkdirAll)
  have "GenPyBind env_nodir globals0 ''out'' ''x'' ''gopy build -output=out x/a x/b'' ''python3''
     ''.so'' 3
   = Some (Some ''gopy: could not create output directory: permission denied'')"
    using gen_fail[OF h, of globals0] by (simp add: GenPyBind_def g0_def)
  moreover have "os_Create env_nodir ''out/x.go'' = Some ''disk full''"
    "emitter_errs env_nodir (GenConstValue (Const ''C'')) = [''bad declaration'']"
    by (simp_all add: env_nodir_def)
  moreover have "\<not> strings_Contains ''gopy: could not create output directory: permission denied''
         ''disk full''"
    "\<not> strings_Contains ''gopy: could not create output directory: permission denied''
         ''bad declaration''"
    by (simp_all add: strings_Contains_def)
  ultimately show ?thesis by blast
qed

text \<open>
  C2, amended. When \<open>os.MkdirAll\<close> fails with the message \<open>m\<close>, \<open>gen\<close> returns at once the
  error \<open>gopy: could not create output directory: m\<close>. Apart from \<open>g.pkg = nil\<close> the
  struct is as before: nothing is added to \<open>g.err\<close>, no buffer is filled and no file is
  opened.
\<close>

theorem gen_stops_when_mkdir_fails:
  assumes "os_MkdirAll E (odir g) = Some m"
  shows "gen E G g
     = Some (Some (''gopy: could not create output directory: '' @ m), g\<lparr>pkg := None\<rparr>)"
  using assms by (rule gen_fail)

text \<open>
  C2, amended, in the world \<open>env_nodir\<close>.
\<close>

theorem gen_stops_when_mkdir_fails_witness:
  "os_MkdirAll env_nodir (odir g0) = Some ''permission denied''
   \<and> gen env_nodir globals0 g0
     = Some (Some ''gopy: could not create output directory: permission denied'', g0)"
proof -
  have h: "os_MkdirAll env_nodir (odir g0) = Some ''permission denied''"
    by (simp add: env_nodir_MkdirAll)
  show ?thesis
    using h gen_stops_when_mkdir_fails[OF h, of globals0] by (simp add: g0_pkg_None)
qed

text \<open>
  C3, as stated, fails. The claim is that \<open>gen\<close> returns \<open>nil\<close> exactly when no error was
  accumulated. In the world \<open>env_nodir\<close> the returned error is not \<open>nil\<close> and the
  accumulator \<open>g.err\<close> is empty.
\<close>

theorem error_returned_with_empty_accumulator:
  "map_option (\<lambda>(e, g'). (e = None, err g')) (gen env_nodir globals0 g0) = Some (False, [])"
proof -
  have h: "os_MkdirAll env_nodir (odir g0) = Some ''permission denied''"
    by (simp add: env_nodir_MkdirAll)
  show ?thesis
    using gen_fail[OF h, of globals0] by (simp add: g0_fields)
qed

text \<open>
  C3, amended. When the output directory can be created, \<open>gen\<close> returns \<open>nil\<close> if and only
  if no error was accumulated during the pass, and otherwise one error whose text is the
  concatenation of the recorded messages in the order in which they were met: those that \<open>g.err\<close>
  held before, then \<open>run_errs\<close> (the creation of \<open>__init__.py\<close>, the external types, each
  package with its emitters and its flush, the three shared files).
\<close>

theorem gen_returns_accumulated:
  assumes "os_MkdirAll E (odir g) = None"
  shows "\<exists>e g'. gen E G g = Some (e, g')
     \<and> err g' = err g @ run_errs E G g
     \<and> (e = None \<longleftrightarrow> err g' = [])
     \<and> (err g' \<noteq> [] \<longrightarrow> e = Some (concat (err g')))"
proof -
  have e: "err (final E G g) = err g @ run_errs E G g"
    by (simp add: final_def)
  show ?thesis
    using gen_ok[OF assms, of G] e by (simp add: ErrorList_Error_def)
qed

text \<open>
  C3, amended, in the world \<open>env_errs\<close>: the emitter error of package \<open>x/a\<close> comes before
  the error of creating \<open>build.py\<close>.
\<close>

theorem gen_returns_accumulated_witness:
  "os_MkdirAll env_errs (odir g0) = None
   \<and> map_option (\<lambda>(e, g'). (e, err g')) (gen env_errs globals0 g0)
     = Some (Some ''bad constant; disk full; '', [''bad constant; '', ''disk full; ''])"
proof -
  have h: "os_MkdirAll env_errs (odir g0) = None"
    by (simp add: env_errs_fields)
  from gen_returns_accumulated[OF h, of globals0]
  obtain e g' where "gen env_errs globals0 g0 = Some (e, g')"
    "err g' = err g0 @ run_errs env_errs globals0 g0"
    "err g' \<noteq> [] \<longrightarrow> e = Some (concat (err g'))"
    by blast
  then show ?thesis
    using h by (simp add: g0_fields run_errs_env_errs)
qed




text \<open>
  C5. In a run whose output directory can be created, the emissions of the glue buffer
  are the external types followed by the declarations of each target package, package after
  package in the order of \<open>Packages\<close>; the wrapper files are opened in the same order, and
  the emissions of each are the external types followed by the declarations of its package;
  and the declarations of a package are its sections in the fixed order types, constants,
  variables, interfaces, structs, constructors, functions, whatever the table holds.
\<close>

theorem sections_in_fixed_order:
  "(\<exists>g'. genPkgs E G ps g = Some g'
      \<and> emits (gofile g') = emits (gofile g) @ concat (map (decls_in_order G) ps)
      \<and> map (\<lambda>(f, b). (f, emits b)) (out g')
          = map (\<lambda>(f, b). (f, emits b)) (out g)
            @ map (\<lambda>p. (filepath_Join E (odir g) (tp_Name (p_pkg p) @ ''.py''),
                         map (\<lambda>s. GenType s True True) (external_types (pkgmap g) G)
                         @ decls_in_order G p)) ps)
   \<and> (os_MkdirAll E (odir g) = None \<longrightarrow>
        (\<exists>e g'. gen E G g = Some (e, g')
           \<and> emits (gofile g')
               = map (\<lambda>s. GenType s True False) (external_types (TargetSet G) G)
                 @ concat (map (decls_in_order G) (Packages G))
           \<and> map (\<lambda>(f, b). (f, emits b)) (out g')
               = map (\<lambda>(f, b). (f, emits b)) (out g)
                 @ [(filepath_Join E (odir g) ''__init__.py'', [])]
                 @ map (\<lambda>p. (filepath_Join E (odir g) (tp_Name (p_pkg p) @ ''.py''),
                              map (\<lambda>s. GenType s True True) (external_types (TargetSet G) G)
                              @ decls_in_order G p)) (Packages G)
                 @ [(filepath_Join E (odir g) (outname g @ ''.go''),
                     map (\<lambda>s. GenType s True False) (external_types (TargetSet G) G)
                     @ concat (map (decls_in_order G) (Packages G))),
                    (filepath_Join E (odir g) ''build.py'', []),
                    (filepath_Join E (odir g) ''Makefile'', [])]))
   \<and> (\<forall>p. decls_in_order G p
              = section_of G p Types @ section_of G p Constants @ section_of G p Variables
                @ section_of G p Interfaces @ section_of G p Structs
                @ section_of G p Constructors @ section_of G p Functions)"
proof -
  have a: "\<exists>g'. genPkgs E G ps g = Some g'
      \<and> emits (gofile g') = emits (gofile g) @ concat (map (decls_in_order G) ps)
      \<and> map (\<lambda>(f, b). (f, emits b)) (out g')
          = map (\<lambda>(f, b). (f, emits b)) (out g)
            @ map (\<lambda>p. (filepath_Join E (odir g) (tp_Name (p_pkg p) @ ''.py''),
                         map (\<lambda>s. GenType s True True) (external_types (pkgmap g) G)
                         @ decls_in_order G p)) ps"
    by (simp add: genPkgs_eq emits_append emits_concat comp_def emits_package_go
        emits_wrapper_file)
  have o: "map (\<lambda>(f, b). (f, emits b)) (run_out E G g)
         = [(filepath_Join E (odir g) ''__init__.py'', [])]
           @ map (\<lambda>p. (filepath_Join E (odir g) (tp_Name (p_pkg p) @ ''.py''),
                        map (\<lambda>s. GenType s True True) (external_types (TargetSet G) G)
                        @ decls_in_order G p)) (Packages G)
           @ [(filepath_Join E (odir g) (outname g @ ''.go''),
               map (\<lambda>s. GenType s True False) (external_types (TargetSet G) G)
               @ concat (map (decls_in_order G) (Packages G))),
              (filepath_Join E (odir g) ''build.py'', []),
              (filepath_Join E (odir g) ''Makefile'', [])]"
    by (simp add: run_out_def emits_wrapper_file emits_glue_file build_file_def recipe_file_def
        comp_def)
  have f: "gofile (final E G g) = glue_file E G g" "out (final E G g) = out g @ run_out E G g"
    by (simp_all add: final_def)
  have b: "\<exists>e g'. gen E G g = Some (e, g')
           \<and> emits (gofile g')
               = map (\<lambda>s. GenType s True False) (external_types (TargetSet G) G)
                 @ concat (map (decls_in_order G) (Packages G))
           \<and> map (\<lambda>(f, b). (f, emits b)) (out g')
               = map (\<lambda>(f, b). (f, emits b)) (out g)
                 @ [(filepath_Join E (odir g) ''__init__.py'', [])]
                 @ map (\<lambda>p. (filepath_Join E (odir g) (tp_Name (p_pkg p) @ ''.py''),
                              map (\<lambda>s. GenType s True True) (external_types (TargetSet G) G)
                              @ decls_in_order G p)) (Packages G)
                 @ [(filepath_Join E (odir g) (outname g @ ''.go''),
                     map (\<lambda>s. GenType s True False) (external_types (TargetSet G) G)
                     @ concat (map (decls_in_order G) (Packages G))),
                    (filepath_Join E (odir g) ''build.py'', []),
                    (filepath_Join E (odir g) ''Makefile'', [])]"
    if "os_MkdirAll E (odir g) = None"
    using gen_ok[OF that, of G] o f emits_glue_file[of E G g] by simp
  show ?thesis
    using a b decls_in_order_sections by blast
qed

text \<open>
  C5 on the sample table.
\<close>

theorem sections_in_fixed_order_witness:
  "os_MkdirAll env0 (odir g0) = None
   \<and> map_option (\<lambda>(e, g'). map (\<lambda>(f, b). (f, emits b)) (out g')) (gen env0 globals0 g0)
     = Some [(''out/__init__.py'', []),
             (''out/a.py'',
              [GenType symStringer True True, GenType symT False False, GenConstValue (Const ''C''),
               GenVarGetter (Var ''V''), GenVarSetter (Var ''V''), GenInterface (Interface ''I''),
               GenStruct \<lparr>s_name = ''S'', ctors = [Func ''NewS'']\<rparr>, GenFunc (Func ''NewS''),
               GenFunc (Func ''F'')]),
             (''out/b.py'',
              [GenType symStringer True True, GenType symU False False, GenFunc (Func ''G'')]),
             (''out/x.go'',
              [GenType symStringer True False, GenType symT False False,
               GenConstValue (Const ''C''), GenVarGetter (Var ''V''), GenVarSetter (Var ''V''),
               GenInterface (Interface ''I''),
               GenStruct \<lparr>s_name = ''S'', ctors = [Func ''NewS'']\<rparr>, GenFunc (Func ''NewS''),
               GenFunc (Func ''F''), GenType symU False False, GenFunc (Func ''G'')]),
             (''out/build.py'', []),
             (''out/Makefile'', [])]"
proof -
  have h: "os_MkdirAll env0 (odir g0) = None"
    by (simp add: env0_fields)
  have p: "Packages globals0 = [pkgA, pkgB]"
    by (simp add: globals0_def)
  from sections_in_fixed_order[of env0 globals0 "[]" g0] h
  obtain e g' where "gen env0 globals0 g0 = Some (e, g')"
    "map (\<lambda>(f, b). (f, emits b)) (out g')
         = map (\<lambda>(f, b). (f, emits b)) (out g0)
           @ [(filepath_Join env0 (odir g0) ''__init__.py'', [])]
           @ map (\<lambda>p. (filepath_Join env0 (odir g0) (tp_Name (p_pkg p) @ ''.py''),
                        map (\<lambda>s. GenType s True True) (external_types (TargetSet globals0) globals0)
                        @ decls_in_order globals0 p)) (Packages globals0)
           @ [(filepath_Join env0 (odir g0) (outname g0 @ ''.go''),
               map (\<lambda>s. GenType s True False) (external_types (TargetSet globals0) globals0)
               @ concat (map (decls_in_order globals0) (Packages globals0))),
              (filepath_Join env0 (odir g0) ''build.py'', []),
              (filepath_Join env0 (odir g0) ''Makefile'', [])]"
    by blast
  then show ?thesis
    using h
    by (simp add: p g0_fields env0_fields TargetSet_globals0 external_types_globals0
        decls_pkgA decls_pkgB)
       (simp add: pkgA_def pkgB_def tpA_def tpB_def)
qed

text \<open>
  C6. The boolean codec that the glue preamble emits is a fixed two-way mapping:
  \<open>boolGoToPy\<close> encodes true as the byte 1 and false as the byte 0; \<open>boolPyToGo\<close> decodes 0
  to false and every other byte to true, never to an error; so decoding an encoded boolean
  gives the boolean back.
\<close>

theorem bool_codec:
  "boolGoToPy True = 1 \<and> boolGoToPy False = 0
   \<and> boolPyToGo 0 = False
   \<and> (\<forall>c. c \<noteq> 0 \<longrightarrow> boolPyToGo c = True)
   \<and> (\<forall>b. boolPyToGo (boolGoToPy b) = b)"
  by (simp add: boolGoToPy_def boolPyToGo_def)

text \<open>
  C6 at the byte 255, which is neither 0 nor the byte of true.
\<close>

theorem bool_codec_witness:
  "(255 :: 8 word) \<noteq> 0 \<and> (255 :: 8 word) \<noteq> 1 \<and> boolPyToGo 255 = True
   \<and> boolPyToGo (boolGoToPy True) = True \<and> boolPyToGo (boolGoToPy False) = False"
proof -
  have n: "(255 :: 8 word) \<noteq> 0" by simp
  have m: "(255 :: 8 word) \<noteq> 1" by simp
  from bool_codec have "\<forall>c. c \<noteq> 0 \<longrightarrow> boolPyToGo c = True" by blast
  with n have t: "boolPyToGo 255 = True" by blast
  from bool_codec have "\<forall>b. boolPyToGo (boolGoToPy b) = b" by blast
  then have "boolPyToGo (boolGoToPy True) = True" "boolPyToGo (boolGoToPy False) = False"
    by blast+
  with n m t show ?thesis by blast
qed

text \<open>
  C7. The claim is that the generate-only command of the build recipe has every
  \<open>-output=...\<close> argument removed. \<open>StripOutputFromCmd\<close> leaves the argument in place when
  no space follows it, and removes only the first of two: the command computed for
  \<open>gopy build x/a -output=out\<close> still holds \<open>-output=out\<close>, and the one computed for
  \<open>gopy build -output=a -output=b x/a\<close> still holds \<open>-output=b\<close>.
\<close>

theorem gencmd_keeps_output_override:
  "gencmd_of ''gopy build x/a -output=out'' = ''gopy gen x/a -output=out''
   \<and> gencmd_of ''gopy build -output=a -output=b x/a'' = ''gopy gen -output=b x/a''
   \<and> strings_Contains (gencmd_of ''gopy build x/a -output=out'') ''-output=''
   \<and> strings_Contains (gencmd_of ''gopy build -output=a -output=b x/a'') ''-output=''"
  by (simp add: gencmd_of_def StripOutputFromCmd_def strings_Contains_def)

text \<open>
  C8, as stated, fails. The claim is that with no target package each of the four files
  holds its fixed preamble only and all four mention the output name. On the sample table
  with an empty package list the run returns \<open>nil\<close> and opens four files; the first,
  \<open>__init__.py\<close>, is empty, and the glue file holds an emission for each of the three type
  symbols of the table.
\<close>

theorem zero_packages_glue_holds_types:
  "map_option (\<lambda>(e, g'). (e, map (\<lambda>(f, b). (f, b = [], emits b)) (out g')))
     (gen env0 globals_empty g0)
   = Some (None,
           [(''out/__init__.py'', True, []),
            (''out/x.go'', False,
             [GenType symT True False, GenType symU True False, GenType symStringer True False]),
            (''out/build.py'', False, []),
            (''out/Makefile'', False, [])])"
proof -
  have h: "os_MkdirAll env0 (odir g0) = None"
    by (simp add: env0_fields)
  have t: "TargetSet globals_empty = {}"
    by (simp add: TargetSet_def globals_empty_def)
  have x: "external_types {} globals_empty = [symT, symU, symStringer]"
    by (simp add: external_types_def symbols_globals_empty is_external_def)
       (simp add: symF_def symT_def symU_def symStringer_def)
  have o: "map (\<lambda>(f, b). (f, b = [], emits b)) (run_out env0 globals_empty g0)
     = [(''out/__init__.py'', True, []),
        (''out/x.go'', False,
         [GenType symT True False, GenType symU True False, GenType symStringer True False]),
        (''out/build.py'', False, []),
        (''out/Makefile'', False, [])]"
    by (simp add: run_out_def glue_file_def build_file_def recipe_file_def t x g0_fields(1,2)
        env0_fields(4) emits_append) (simp add: globals_empty_def)
  show ?thesis
    using gen_ok[OF h, of globals_empty] o
    by (simp add: run_errs_env0_empty g0_fields(3,4) final_def)
qed

text \<open>
  C8, amended. With no target package and an output directory that can be created, a run
  opens \<open>__init__.py\<close>, the glue file, \<open>build.py\<close> and \<open>Makefile\<close>, in this order, and no
  wrapper file. \<open>__init__.py\<close> is empty. \<open>build.py\<close> and \<open>Makefile\<close> hold their preamble and
  their trailer, built from the output name that also names the glue file. The glue file
  holds its preamble, the heading of the external types, one emission for every type symbol
  of the table (with no target package every type symbol is external) and its trailer.
\<close>

theorem gen_without_packages:
  assumes "Packages G = []" and "os_MkdirAll E (odir g) = None"
  shows "\<exists>e g'. gen E G g = Some (e, g')
     \<and> out g' = out g
         @ [(filepath_Join E (odir g) ''__init__.py'', []),
            (filepath_Join E (odir g) (outname g @ ''.go''),
             [Txt (goPreamble (outname g) (cmdstr g) (libcfg_of E (vm g)) (GoHandle G)
                     (CGoHandle G) (pkgimport_of E)),
              Txt (nl @ ''// --- generated code for package: '' @ outname g @ '' below: ---''
                   @ nl @ nl),
              Txt (nl @ ''// ---- External Types Outside of Targeted Packages ---'' @ nl)]
             @ map (\<lambda>s. Emit (GenType s True False)) (filter isType (symbols G))
             @ [Txt (nl @ nl)]),
            (filepath_Join E (odir g) ''build.py'',
             [Txt (PyBuildPreamble (outname g) (cmdstr g)),
              Txt (nl @ ''mod.generate(open('' @ sq @ outname g @ ''.c'' @ sq @ '', '' @ sq
                   @ ''w'' @ sq @ ''))'' @ nl @ nl)]),
            (filepath_Join E (odir g) ''Makefile'',
             [Txt (MakefileTemplate (outname g) (cmdstr g) (gencmd_of (cmdstr g)) (vm g)
                     (libext g)),
              Txt (nl @ nl)])]"
proof -
  have t: "TargetSet G = {}"
    using assms(1) by (simp add: TargetSet_def)
  have x: "external_types {} G = filter isType (symbols G)"
    by (simp add: external_types_def is_external_def cong: filter_cong)
  have o: "out (final E G g) = out g @ run_out E G g"
    by (simp add: final_def)
  show ?thesis
    using gen_ok[OF assms(2), of G] assms(1)
    by (simp add: o run_out_def glue_file_def build_file_def recipe_file_def t x)
qed

text \<open>
  C8, amended, on the sample table with an empty package list.
\<close>

theorem gen_without_packages_witness:
  "Packages globals_empty = [] \<and> os_MkdirAll env0 (odir g0) = None
   \<and> map_option (\<lambda>(e, g'). map (\<lambda>(f, b). (f, emits b)) (out g')) (gen env0 globals_empty g0)
     = Some [(''out/__init__.py'', []),
             (''out/x.go'',
              [GenType symT True False, GenType symU True False, GenType symStringer True False]),
             (''out/build.py'', []),
             (''out/Makefile'', [])]"
proof -
  have p: "Packages globals_empty = []"
    by (simp add: globals_empty_def)
  have h: "os_MkdirAll env0 (odir g0) = None"
    by (simp add: env0_fields)
  from gen_without_packages[OF p h]
  obtain e g' where "gen env0 globals_empty g0 = Some (e, g')"
    "out g' = out g0
         @ [(filepath_Join env0 (odir g0) ''__init__.py'', []),
            (filepath_Join env0 (odir g0) (outname g0 @ ''.go''),
             [Txt (goPreamble (outname g0) (cmdstr g0) (libcfg_of env0 (vm g0))
                     (GoHandle globals_empty) (CGoHandle globals_empty) (pkgimport_of env0)),
              Txt (nl @ ''// --- generated code for package: '' @ outname g0 @ '' below: ---''
                   @ nl @ nl),
              Txt (nl @ ''// ---- External Types Outside of Targeted Packages ---'' @ nl)]
             @ map (\<lambda>s. Emit (GenType s True False)) (filter isType (symbols globals_empty))
             @ [Txt (nl @ nl)]),
            (filepath_Join env0 (odir g0) ''build.py'',
             [Txt (PyBuildPreamble (outname g0) (cmdstr g0)),
              Txt (nl @ ''mod.generate(open('' @ sq @ outname g0 @ ''.c'' @ sq @ '', '' @ sq
                   @ ''w'' @ sq @ ''))'' @ nl @ nl)]),
            (filepath_Join env0 (odir g0) ''Makefile'',
             [Txt (MakefileTemplate (outname g0) (cmdstr g0) (gencmd_of (cmdstr g0)) (vm g0)
                     (libext g0)),
              Txt (nl @ nl)])]"
    by blast
  then show ?thesis
    using p h
    by (simp add: type_symbols_globals_empty emits_append emits_map_Emit_fun
        g0_fields(1,2,4) env0_fields(4))
qed

text \<open>
  C9. \<open>genVar\<close> makes two emissions for a variable, its getter and then its setter, and
  \<open>genConst\<close> makes one emission for a constant, its value, in the glue buffer and in the
  wrapper buffer. Among the emissions of \<open>genAll\<close> for a package, those of variables are
  the getter and setter of each variable of the package, and those of constants are one
  value for each constant of the package.
\<close>

theorem var_two_emissions_const_one:
  "emits (gofile (genVar E v g)) = emits (gofile g) @ [GenVarGetter v, GenVarSetter v]
   \<and> emits (pywrap (genVar E v g)) = emits (pywrap g) @ [GenVarGetter v, GenVarSetter v]
   \<and> emits (gofile (genConst E c g)) = emits (gofile g) @ [GenConstValue c]
   \<and> emits (pywrap (genConst E c g)) = emits (pywrap g) @ [GenConstValue c]
   \<and> (\<forall>p. pkg g = Some p \<longrightarrow>
        (\<exists>g'. genAll E G g = Some g'
           \<and> emits (gofile g') = emits (gofile g) @ decls_in_order G p
           \<and> emits (pywrap g') = emits (pywrap g) @ decls_in_order G p
           \<and> filter is_var_emission (decls_in_order G p)
               = concat (map (\<lambda>v. [GenVarGetter v, GenVarSetter v]) (p_vars p))
           \<and> filter is_const_emission (decls_in_order G p)
               = map GenConstValue (p_consts p)))"
proof -
  have v: "emits (gofile (genVar E v g)) = emits (gofile g) @ [GenVarGetter v, GenVarSetter v]"
    "emits (pywrap (genVar E v g)) = emits (pywrap g) @ [GenVarGetter v, GenVarSetter v]"
    by (simp_all add: genVar_def genVarGetter_def genVarSetter_def emitter_def emits_append)
  have c: "emits (gofile (genConst E c g)) = emits (gofile g) @ [GenConstValue c]"
    "emits (pywrap (genConst E c g)) = emits (pywrap g) @ [GenConstValue c]"
    by (simp_all add: genConst_def genConstValue_def emitter_def emits_append)
  have a: "\<exists>g'. genAll E G g = Some g'
           \<and> emits (gofile g') = emits (gofile g) @ decls_in_order G p
           \<and> emits (pywrap g') = emits (pywrap g) @ decls_in_order G p" if "pkg g = Some p" for p
    using that by (simp add: genAll_eq emits_append emits_package_go emits_package_wrap)
  show ?thesis
    using v c a filter_var_decls filter_const_decls by blast
qed

text \<open>
  C9 on package \<open>x/a\<close> of the sample table.
\<close>

theorem var_two_emissions_const_one_witness:
  "pkg (g0\<lparr>pkg := Some pkgA\<rparr>) = Some pkgA
   \<and> map_option (\<lambda>g'. (emits (gofile g'), emits (pywrap g')))
        (genAll env0 globals0 (g0\<lparr>pkg := Some pkgA\<rparr>))
       = Some ([GenType symT False False, GenConstValue (Const ''C''), GenVarGetter (Var ''V''),
                GenVarSetter (Var ''V''), GenInterface (Interface ''I''),
                GenStruct \<lparr>s_name = ''S'', ctors = [Func ''NewS'']\<rparr>, GenFunc (Func ''NewS''),
                GenFunc (Func ''F'')],
               [GenType symT False False, GenConstValue (Const ''C''), GenVarGetter (Var ''V''),
                GenVarSetter (Var ''V''), GenInterface (Interface ''I''),
                GenStruct \<lparr>s_name = ''S'', ctors = [Func ''NewS'']\<rparr>, GenFunc (Func ''NewS''),
                GenFunc (Func ''F'')])"
proof -
  have p: "pkg (g0\<lparr>pkg := Some pkgA\<rparr>) = Some pkgA" by simp
  from var_two_emissions_const_one[of env0 "Var ''V''" "g0\<lparr>pkg := Some pkgA\<rparr>" "Const ''C''" globals0] p
  obtain g' where "genAll env0 globals0 (g0\<lparr>pkg := Some pkgA\<rparr>) = Some g'"
    "emits (gofile g') = emits (gofile (g0\<lparr>pkg := Some pkgA\<rparr>)) @ decls_in_order globals0 pkgA"
    "emits (pywrap g') = emits (pywrap (g0\<lparr>pkg := Some pkgA\<rparr>)) @ decls_in_order globals0 pkgA"
    by blast
  then show ?thesis
    by (simp add: g0_fields decls_pkgA)
qed

text \<open>
  C10. \<open>genPkg\<close> leaves \<open>g.pkg = nil\<close>. The wrapper buffer after it is \<open>wrapper_file\<close>: the
  preamble of the package, the external types, the sections of the package. It is handed
  to the file named after the package, it does not depend on what the wrapper buffer held
  before, and over a list of packages one such file is opened for each package in turn.
\<close>

theorem wrapper_isolated:
  "\<exists>g'. genPkg E G p g = Some g' \<and> pkg g' = None
     \<and> pywrap g' = wrapper_file (pkgmap g) (outname g) (cmdstr g) G p
     \<and> out g' = out g @ [(filepath_Join E (odir g) (tp_Name (p_pkg p) @ ''.py''), pywrap g')]
     \<and> emits (pywrap g')
         = map (\<lambda>s. GenType s True True) (external_types (pkgmap g) G) @ decls_in_order G p
     \<and> (\<forall>w. map_option pywrap (genPkg E G p (g\<lparr>pywrap := w\<rparr>)) = Some (pywrap g'))
     \<and> (\<exists>g''. genPkgs E G ps g = Some g''
           \<and> out g'' = out g @ map (\<lambda>p. (filepath_Join E (odir g) (tp_Name (p_pkg p) @ ''.py''),
                                         wrapper_file (pkgmap g) (outname g) (cmdstr g) G p)) ps
           \<and> pkg g'' = (if ps = [] then pkg g else None))"
proof -
  have e: "emits (wrapper_file T on cs G p)
         = map (\<lambda>s. GenType s True True) (external_types T G) @ decls_in_order G p" for T on cs
    by (simp add: wrapper_file_def emits_append emits_map_Emit_fun emits_package_wrap)
  show ?thesis
    by (simp add: genPkg_eq genPkgs_eq e)
qed

text \<open>
  C10 for package \<open>x/b\<close>, started with a wrapper buffer that holds an emission of \<open>x/a\<close>.
\<close>

theorem wrapper_isolated_witness:
  "map_option (\<lambda>g'. (pkg g', emits (pywrap g'), map fst (out g')))
     (genPkg env0 globals0 pkgB (g0\<lparr>pywrap := [Emit (GenFunc (Func ''F''))]\<rparr>))
   = Some (None,
           [GenType symT True True, GenType symU True True, GenType symStringer True True,
            GenType symU False False, GenFunc (Func ''G'')],
           [''out/b.py''])"
proof -
  from wrapper_isolated[of env0 globals0 pkgB "g0\<lparr>pywrap := [Emit (GenFunc (Func ''F''))]\<rparr>" "[]"]
  obtain g' where "genPkg env0 globals0 pkgB (g0\<lparr>pywrap := [Emit (GenFunc (Func ''F''))]\<rparr>) = Some g'"
    "pkg g' = None"
    "out g' = out (g0\<lparr>pywrap := [Emit (GenFunc (Func ''F''))]\<rparr>)
       @ [(filepath_Join env0 (odir (g0\<lparr>pywrap := [Emit (GenFunc (Func ''F''))]\<rparr>))
             (tp_Name (p_pkg pkgB) @ ''.py''), pywrap g')]"
    "emits (pywrap g')
       = map (\<lambda>s. GenType s True True)
           (external_types (pkgmap (g0\<lparr>pywrap := [Emit (GenFunc (Func ''F''))]\<rparr>)) globals0)
         @ decls_in_order globals0 pkgB"
    by blast
  then show ?thesis
    by (simp add: g0_fields env0_fields decls_pkgB external_types_none_globals0)
       (simp add: pkgB_def tpB_def)
qed

end
